theory Spec2Isabelle
  imports Complex_Main "HOL-Library.Char_ord" "HOL-Library.List_Lexorder"
begin

section \<open>Energy price forecasting pipeline: tables, loaders, adapters\<close>

text \<open>
  The repository is glue code over pandas, numpy, statsmodels, arch and transformers.
  This theory embeds its six modules. The tables of pandas are modelled by the data they
  hold (an index, named columns of cells); the estimation libraries are parameters of the
  adapters, present (\<open>Some lib\<close>) or absent (\<open>None\<close>), as the module-level names
  \<^verbatim>\<open>ARIMA\<close>, \<^verbatim>\<open>arch_model\<close>, \<^verbatim>\<open>VECM\<close> and \<^verbatim>\<open>pipeline\<close> are after the guarded imports.
  Every exception of the source is a value \<open>Inl e\<close>.
\<close>

subsection \<open>Floating-point cells\<close>

text \<open>
  A Python float is the missing-value marker \<^verbatim>\<open>float('nan')\<close> or a finite number. Finite
  numbers are modelled by reals: rounding and the infinities are not represented.
  Arithmetic and \<^verbatim>\<open>np.maximum\<close> propagate NaN; every comparison with NaN is false, except
  \<^verbatim>\<open>!=\<close>, which is true.
\<close>

datatype pyfloat = NaN | Fin real

fun fsub :: "pyfloat \<Rightarrow> pyfloat \<Rightarrow> pyfloat" where
  "fsub (Fin a) (Fin b) = Fin (a - b)"
| "fsub _ _ = NaN"

fun fadd :: "pyfloat \<Rightarrow> pyfloat \<Rightarrow> pyfloat" where
  "fadd (Fin a) (Fin b) = Fin (a + b)"
| "fadd _ _ = NaN"

fun fneg :: "pyfloat \<Rightarrow> pyfloat" where
  "fneg (Fin a) = Fin (- a)"
| "fneg NaN = NaN"

fun np_maximum :: "pyfloat \<Rightarrow> pyfloat \<Rightarrow> pyfloat" where
  "np_maximum (Fin a) (Fin b) = Fin (max a b)"
| "np_maximum _ _ = NaN"

fun fge :: "pyfloat \<Rightarrow> pyfloat \<Rightarrow> bool" where
  "fge (Fin a) (Fin b) = (b \<le> a)"
| "fge _ _ = False"

fun feq :: "pyfloat \<Rightarrow> pyfloat \<Rightarrow> bool" where
  "feq (Fin a) (Fin b) = (a = b)"
| "feq _ _ = False"

definition fne :: "pyfloat \<Rightarrow> pyfloat \<Rightarrow> bool" where
  "fne a b = (\<not> feq a b)"

text \<open>
  A cell of a table: a number, text, or a boolean. A column of pandas has one dtype, which
  the cells determine: a column of numbers only is a float column (integers are not told
  apart from floats), a column of booleans only is a bool column, and any other column is
  an object column, whose cells are Python objects: strings, the float NaN for a missing
  cell, booleans.
\<close>

datatype cell = Num pyfloat | Str string | Bool bool

fun is_num :: "cell \<Rightarrow> bool" where
  "is_num (Num x) = True"
| "is_num _ = False"

fun is_bool :: "cell \<Rightarrow> bool" where
  "is_bool (Bool b) = True"
| "is_bool _ = False"

text \<open>A boolean as a float: \<^verbatim>\<open>float(True)\<close> is 1.0 and \<^verbatim>\<open>float(False)\<close> is 0.0.\<close>

definition bool_to_float :: "bool \<Rightarrow> pyfloat" where
  "bool_to_float b = Fin (if b then 1 else 0)"

subsection \<open>Exceptions\<close>

datatype error =
    FileNotFoundError
  | KeyError
  | IndexError
  | ValueError
  | TypeError
  | AttributeError
  | BackendError string

definition and_then :: "error + 'a \<Rightarrow> ('a \<Rightarrow> error + 'b) \<Rightarrow> error + 'b" where
  "and_then r f = (case r of Inl e \<Rightarrow> Inl e | Inr x \<Rightarrow> f x)"

subsection \<open>Indexes, series and tables\<close>

text \<open>
  The three kinds of pandas index the program meets: the default positional index
  \<^verbatim>\<open>RangeIndex(start, stop)\<close>; a \<^verbatim>\<open>DatetimeIndex\<close> of timestamps (integers: seconds since some
  epoch) with its optional frequency (the step in seconds); an index of strings (the
  column names, when a row of a table is taken as a series).
\<close>

datatype pd_index =
    RangeIndex nat nat
  | DatetimeIndex "int list" "int option"
  | ObjectIndex "string list"

datatype key = IntKey int | TimeKey int | StrKey string

fun index_keys :: "pd_index \<Rightarrow> key list" where
  "index_keys (RangeIndex start stop) = map (\<lambda>k. IntKey (int k)) [start..<stop]"
| "index_keys (DatetimeIndex stamps f) = map TimeKey stamps"
| "index_keys (ObjectIndex names) = map StrKey names"

fun index_len :: "pd_index \<Rightarrow> nat" where
  "index_len (RangeIndex start stop) = stop - start"
| "index_len (DatetimeIndex stamps f) = length stamps"
| "index_len (ObjectIndex names) = length names"

fun is_datetime :: "pd_index \<Rightarrow> bool" where
  "is_datetime (DatetimeIndex stamps f) = True"
| "is_datetime _ = False"

record Series =
  sindex :: pd_index
  svalues :: "cell list"

record DataFrame =
  index :: pd_index
  cols :: "(string \<times> cell list) list"

definition columns :: "DataFrame \<Rightarrow> string list" where
  "columns df = map fst (cols df)"

text \<open>\<^verbatim>\<open>pd.Series(values)\<close>: a list under the default positional index.\<close>

definition pd_Series :: "cell list \<Rightarrow> Series" where
  "pd_Series vs = \<lparr>sindex = RangeIndex 0 (length vs), svalues = vs\<rparr>"

text \<open>
  \<^verbatim>\<open>[x] * n\<close>: Python's list repetition; a count of zero or less gives the empty list.
\<close>

definition py_repeat :: "'a \<Rightarrow> int \<Rightarrow> 'a list" where
  "py_repeat x n = replicate (nat n) x"

text \<open>
  \<^verbatim>\<open>pd.DataFrame({col: values for col in names}, columns=names)\<close>: every named column
  holds the same list; the rows get the default positional index, and a table without
  columns has no rows.
\<close>

definition pd_DataFrame_const :: "string list \<Rightarrow> cell list \<Rightarrow> DataFrame" where
  "pd_DataFrame_const names vs =
     \<lparr>index = RangeIndex 0 (if names = [] then 0 else length vs),
      cols = map (\<lambda>col. (col, vs)) names\<rparr>"

text \<open>
  Python's slice \<^verbatim>\<open>xs[-n:]\<close>: a negative start counts from the end and is clipped to
  the list; \<^verbatim>\<open>-0\<close> is \<^verbatim>\<open>0\<close>, the whole list.
\<close>

definition tail_start :: "nat \<Rightarrow> int \<Rightarrow> nat" where
  "tail_start len n = (if 0 < n then len - nat n else min (nat (- n)) len)"

fun slice_index :: "pd_index \<Rightarrow> nat \<Rightarrow> pd_index" where
  "slice_index (RangeIndex start stop) k = RangeIndex (min (start + k) (max start stop)) (max start stop)"
| "slice_index (DatetimeIndex stamps f) k = DatetimeIndex (drop k stamps) f"
| "slice_index (ObjectIndex names) k = ObjectIndex (drop k names)"

definition iloc_tail :: "DataFrame \<Rightarrow> int \<Rightarrow> DataFrame" where
  "iloc_tail df n =
     (let k = tail_start (index_len (index df)) n
      in \<lparr>index = slice_index (index df) k,
          cols = map (\<lambda>(name, vs). (name, drop k vs)) (cols df)\<rparr>)"

subsection \<open>arimax.py\<close>

text \<open>
  The statsmodels ARIMA estimator, as far as the adapters use it:
  \<^verbatim>\<open>ARIMA(series, order=order, exog=exog).fit()\<close>, the fitted model's
  \<^verbatim>\<open>get_forecast(steps=, exog=).predicted_mean\<close> and its \<^verbatim>\<open>resid\<close>.
\<close>

record 'm arima_lib =
  arima_fit :: "Series \<Rightarrow> int \<times> int \<times> int \<Rightarrow> DataFrame option \<Rightarrow> error + 'm"
  get_forecast :: "'m \<Rightarrow> int \<Rightarrow> DataFrame option \<Rightarrow> error + Series"
  resid :: "'m \<Rightarrow> Series"

definition fit_arimax ::
  "'m arima_lib option \<Rightarrow> Series \<Rightarrow> DataFrame option \<Rightarrow> int \<times> int \<times> int \<Rightarrow> int
     \<Rightarrow> error + Series" where
  "fit_arimax ARIMA series exog order forecast_steps =
     (case ARIMA of
        None \<Rightarrow> Inr (pd_Series (py_repeat (Num NaN) forecast_steps))
      | Some lib \<Rightarrow>
          and_then (arima_fit lib series order exog) (\<lambda>fitted.
            get_forecast lib fitted forecast_steps
              (case exog of None \<Rightarrow> None | Some e \<Rightarrow> Some (iloc_tail e forecast_steps))))"

subsection \<open>arimax\_garch.py\<close>

text \<open>
  The arch library: \<^verbatim>\<open>arch_model(resid, p=, q=).fit(disp="off")\<close> and the fitted
  model's \<^verbatim>\<open>forecast(horizon=).variance\<close>, a table with one row per origin.
\<close>

record 'g arch_lib =
  arch_fit :: "Series \<Rightarrow> int \<Rightarrow> int \<Rightarrow> error + 'g"
  variance_forecast :: "'g \<Rightarrow> int \<Rightarrow> error + DataFrame"

text \<open>
  The module imports both libraries in one guarded block: when either import fails,
  both names are set to \<^verbatim>\<open>None\<close>.
\<close>

definition import_arimax_garch ::
  "'m arima_lib option \<Rightarrow> 'g arch_lib option \<Rightarrow> 'm arima_lib option \<times> 'g arch_lib option" where
  "import_arimax_garch statsmodels arch =
     (case statsmodels of
        None \<Rightarrow> (None, None)
      | Some a \<Rightarrow> (case arch of None \<Rightarrow> (None, None) | Some g \<Rightarrow> (Some a, Some g)))"

record ('m, 'g) ArimaxGarchResult =
  mean_model :: "'m option"
  vol_model :: "'g option"
  forecast_mean :: Series
  forecast_vol :: Series

text \<open>\<^verbatim>\<open>df.iloc[-1]\<close>: the last row as a series indexed by the column names.\<close>

definition iloc_last_row :: "DataFrame \<Rightarrow> error + Series" where
  "iloc_last_row df =
     (if index_len (index df) = 0 then Inl IndexError
      else Inr \<lparr>sindex = ObjectIndex (columns df),
                svalues = map (\<lambda>(name, vs). if vs = [] then Num NaN else last vs) (cols df)\<rparr>)"

definition fit_arimax_garch ::
  "'m arima_lib option \<Rightarrow> 'g arch_lib option \<Rightarrow> Series \<Rightarrow> DataFrame option
     \<Rightarrow> int \<times> int \<times> int \<Rightarrow> int \<times> int \<Rightarrow> int \<Rightarrow> error + ('m, 'g) ArimaxGarchResult" where
  "fit_arimax_garch ARIMA arch_model series exog arima_order garch_order forecast_steps =
     (case ARIMA of
        None \<Rightarrow>
          Inr \<lparr>mean_model = None, vol_model = None,
               forecast_mean = pd_Series (py_repeat (Num NaN) forecast_steps),
               forecast_vol = pd_Series (py_repeat (Num NaN) forecast_steps)\<rparr>
      | Some lib \<Rightarrow>
          (case arch_model of
             None \<Rightarrow>
               Inr \<lparr>mean_model = None, vol_model = None,
                    forecast_mean = pd_Series (py_repeat (Num NaN) forecast_steps),
                    forecast_vol = pd_Series (py_repeat (Num NaN) forecast_steps)\<rparr>
           | Some glib \<Rightarrow>
               and_then (arima_fit lib series arima_order exog) (\<lambda>fitted.
               and_then (arch_fit glib (resid lib fitted) (fst garch_order) (snd garch_order))
                 (\<lambda>garch_fit.
               and_then (get_forecast lib fitted forecast_steps
                   (case exog of None \<Rightarrow> None | Some e \<Rightarrow> Some (iloc_tail e forecast_steps)))
                 (\<lambda>fmean.
               and_then (variance_forecast glib garch_fit forecast_steps) (\<lambda>variance.
               and_then (iloc_last_row variance) (\<lambda>fvol.
                 Inr \<lparr>mean_model = Some fitted, vol_model = Some garch_fit,
                      forecast_mean = fmean, forecast_vol = fvol\<rparr>)))))))"

subsection \<open>vecm\_garch.py\<close>

text \<open>
  The statsmodels VECM estimator:
  \<^verbatim>\<open>VECM(series, deterministic=, k_ar_diff=, coint_rank=).fit()\<close> and the fitted model's
  \<^verbatim>\<open>predict(steps=)\<close>, an array with one row per step.
\<close>

record 'v vecm_lib =
  vecm_fit :: "DataFrame \<Rightarrow> int \<Rightarrow> int \<Rightarrow> int option \<Rightarrow> error + 'v"
  predict :: "'v \<Rightarrow> int \<Rightarrow> error + pyfloat list list"

record 'v VecmGarchResult =
  vecm_model :: "'v option"
  forecast :: DataFrame

text \<open>
  \<^verbatim>\<open>pd.date_range(start=series.index[-1], periods=forecast_steps + 1,
  freq=series.index.freq)[1:]\<close>. The arguments are evaluated in order: the last label of an
  empty index raises IndexError; only a DatetimeIndex has a \<^verbatim>\<open>freq\<close>; a negative number of
  periods raises ValueError. When the frequency is \<^verbatim>\<open>None\<close> (as it is for an index read from
  a file), \<^verbatim>\<open>date_range\<close> steps by calendar days. No period at all, or one, gives the empty
  index once the start is dropped.
\<close>

definition day :: int where
  "day = 86400"

definition date_range_step :: "int option \<Rightarrow> int" where
  "date_range_step f = (case f of None \<Rightarrow> day | Some step \<Rightarrow> step)"

fun forecast_index :: "pd_index \<Rightarrow> int \<Rightarrow> error + pd_index" where
  "forecast_index (DatetimeIndex stamps f) forecast_steps =
     (if stamps = [] then Inl IndexError
      else if forecast_steps + 1 < 0 then Inl ValueError
      else Inr (DatetimeIndex
             (map (\<lambda>k. last stamps + int k * date_range_step f)
                [1..<nat (forecast_steps + 1)])
             (Some (date_range_step f))))"
| "forecast_index (RangeIndex start stop) forecast_steps =
     (if stop \<le> start then Inl IndexError else Inl AttributeError)"
| "forecast_index (ObjectIndex names) forecast_steps =
     (if names = [] then Inl IndexError else Inl AttributeError)"

text \<open>
  \<^verbatim>\<open>pd.DataFrame(array, index=, columns=)\<close>: the array's shape must be (rows of the
  index, number of columns), else ValueError.
\<close>

definition pd_DataFrame_rows :: "pyfloat list list \<Rightarrow> pd_index \<Rightarrow> string list \<Rightarrow> error + DataFrame" where
  "pd_DataFrame_rows rows idx names =
     (if length rows = index_len idx \<and> list_all (\<lambda>r. length r = length names) rows
      then Inr \<lparr>index = idx,
                cols = map (\<lambda>j. (names ! j, map (\<lambda>r. Num (r ! j)) rows)) [0..<length names]\<rparr>
      else Inl ValueError)"

definition fit_vecm_garch ::
  "'v vecm_lib option \<Rightarrow> DataFrame \<Rightarrow> int \<Rightarrow> int \<Rightarrow> int option \<Rightarrow> int
     \<Rightarrow> error + 'v VecmGarchResult" where
  "fit_vecm_garch VECM series det_order k_ar_diff cointegr_rank forecast_steps =
     (case VECM of
        None \<Rightarrow>
          Inr \<lparr>vecm_model = None,
               forecast = pd_DataFrame_const (columns series) (py_repeat (Num NaN) forecast_steps)\<rparr>
      | Some lib \<Rightarrow>
          and_then (vecm_fit lib series det_order k_ar_diff cointegr_rank) (\<lambda>vecm_res.
          and_then (predict lib vecm_res forecast_steps) (\<lambda>fc.
          and_then (forecast_index (index series) forecast_steps) (\<lambda>fc_index.
          and_then (pd_DataFrame_rows fc fc_index (columns series)) (\<lambda>forecast_df.
            Inr \<lparr>vecm_model = Some vecm_res, forecast = forecast_df\<rparr>)))))"

subsection \<open>sentiment\_integration.py\<close>

text \<open>
  The transformers library: \<^verbatim>\<open>pipeline(task, model=)\<close> builds a classifier (it may fail,
  for instance when the model cannot be fetched); the classifier maps a text to a list of
  results, each with a \<^verbatim>\<open>label\<close> and a \<^verbatim>\<open>score\<close>.
\<close>

record classification =
  label :: string
  score :: pyfloat

type_synonym sentiment_pipeline = "string \<Rightarrow> error + classification list"

type_synonym transformers_lib = "string \<Rightarrow> string \<Rightarrow> error + sentiment_pipeline"

text \<open>\<^verbatim>\<open>str.lower()\<close> on ASCII text.\<close>

definition lower_char :: "char \<Rightarrow> char" where
  "lower_char c =
     (if CHR ''A'' \<le> c \<and> c \<le> CHR ''Z'' then char_of (of_char c + (32::nat)) else c)"

definition lower :: "string \<Rightarrow> string" where
  "lower s = map lower_char s"

text \<open>The loop over the texts; \<open>scores\<close> is the list built so far.\<close>

fun score_texts :: "sentiment_pipeline \<Rightarrow> string list \<Rightarrow> pyfloat list \<Rightarrow> error + pyfloat list" where
  "score_texts sp [] scores = Inr scores"
| "score_texts sp (text # rest) scores =
     (case sp text of
        Inl e \<Rightarrow> Inl e
      | Inr [] \<Rightarrow> Inl IndexError
      | Inr (result # _) \<Rightarrow>
          (if lower (label result) = ''positive''
             then score_texts sp rest (scores @ [score result])
           else if lower (label result) = ''negative''
             then score_texts sp rest (scores @ [fneg (score result)])
           else score_texts sp rest (scores @ [Fin 0])))"

definition compute_finbert_sentiment :: "transformers_lib option \<Rightarrow> string list \<Rightarrow> error + Series" where
  "compute_finbert_sentiment pipeline texts =
     (case pipeline of
        None \<Rightarrow> Inr (pd_Series (py_repeat (Num (Fin 0)) (int (length texts))))
      | Some build \<Rightarrow>
          and_then (build ''sentiment-analysis'' ''ProsusAI/finbert'') (\<lambda>sp.
          and_then (score_texts sp texts []) (\<lambda>scores.
            Inr (pd_Series (map Num scores)))))"

text \<open>
  The label mapping in the spec's words: positive gives the confidence, negative its
  negation, anything else zero.
\<close>

definition spec_signed_score :: "string \<Rightarrow> pyfloat \<Rightarrow> pyfloat" where
  "spec_signed_score lbl c =
     (if lbl = ''positive'' then c else if lbl = ''negative'' then fneg c else Fin 0)"

subsection \<open>data\_ingestion.py\<close>

text \<open>
  A delimited file as \<^verbatim>\<open>pd.read_csv(path, parse_dates=True, index_col=0)\<close> splits it: the
  parsed timestamps of the first column, in the order of the rows, and the named value
  columns with the text of each cell. The file system maps a path to its file.

  How a text is read belongs to pandas and to Python and is a parameter: \<open>na_text\<close> tells
  the texts \<^verbatim>\<open>read_csv\<close> takes for a missing value (the empty cell, \<^verbatim>\<open>NA\<close>, \<^verbatim>\<open>NaN\<close>, ...);
  \<open>number_text\<close> gives the number a text denotes for \<^verbatim>\<open>read_csv\<close>, and \<open>bool_text\<close> the
  boolean (\<^verbatim>\<open>True\<close>, \<^verbatim>\<open>False\<close>); \<open>to_numeric_text\<close> gives the number a text denotes for
  \<^verbatim>\<open>pd.to_numeric\<close>; \<open>float_text\<close> gives the number Python's \<^verbatim>\<open>float(text)\<close> returns, if it
  returns one. The first column of the file is taken to hold timestamps that parse.
\<close>

record csv_file =
  stamps :: "int list"
  fcols :: "(string \<times> string list) list"

type_synonym filesystem = "string \<Rightarrow> csv_file option"

record parser =
  na_text :: "string \<Rightarrow> bool"
  number_text :: "string \<Rightarrow> pyfloat option"
  bool_text :: "string \<Rightarrow> bool option"
  to_numeric_text :: "string \<Rightarrow> pyfloat option"
  float_text :: "string \<Rightarrow> pyfloat option"

text \<open>
  \<^verbatim>\<open>read_csv\<close> converts a column as a whole, trying the dtypes in order. When every cell is
  missing or a number, the column is a float column, NaN at the missing cells. Else, when
  every cell is missing or a boolean, the cells are booleans: a bool column, or, with a
  missing cell, an object column of booleans and NaN. Any other column is an object
  column that keeps the text of each cell, a number's text too, and NaN at the missing
  cells.
\<close>

definition numeric_column :: "parser \<Rightarrow> string list \<Rightarrow> bool" where
  "numeric_column p raw = list_all (\<lambda>s. na_text p s \<or> number_text p s \<noteq> None) raw"

definition boolean_column :: "parser \<Rightarrow> string list \<Rightarrow> bool" where
  "boolean_column p raw =
     (\<not> numeric_column p raw \<and> list_all (\<lambda>s. na_text p s \<or> bool_text p s \<noteq> None) raw)"

definition read_number :: "parser \<Rightarrow> string \<Rightarrow> cell" where
  "read_number p s =
     Num (if na_text p s then NaN else case number_text p s of Some x \<Rightarrow> x | None \<Rightarrow> NaN)"

definition read_bool :: "parser \<Rightarrow> string \<Rightarrow> cell" where
  "read_bool p s =
     (if na_text p s then Num NaN
      else case bool_text p s of Some b \<Rightarrow> Bool b | None \<Rightarrow> Num NaN)"

definition read_text :: "parser \<Rightarrow> string \<Rightarrow> cell" where
  "read_text p s = (if na_text p s then Num NaN else Str s)"

definition read_column :: "parser \<Rightarrow> string list \<Rightarrow> cell list" where
  "read_column p raw =
     (if numeric_column p raw then map (read_number p) raw
      else if boolean_column p raw then map (read_bool p) raw
      else map (read_text p) raw)"

text \<open>The index read from a file is a DatetimeIndex without a frequency.\<close>

definition read_csv :: "parser \<Rightarrow> filesystem \<Rightarrow> string \<Rightarrow> error + DataFrame" where
  "read_csv p fs file_path =
     (case fs file_path of
        None \<Rightarrow> Inl FileNotFoundError
      | Some f \<Rightarrow>
          Inr \<lparr>index = DatetimeIndex (stamps f) None,
               cols = map (\<lambda>(name, raw). (name, read_column p raw)) (fcols f)\<rparr>)"

text \<open>\<^verbatim>\<open>df[col]\<close>: the column of that name, KeyError when there is none.\<close>

definition getitem :: "DataFrame \<Rightarrow> string \<Rightarrow> error + Series" where
  "getitem df col =
     (case map_of (cols df) col of
        None \<Rightarrow> Inl KeyError
      | Some vs \<Rightarrow> Inr \<lparr>sindex = index df, svalues = vs\<rparr>)"

text \<open>
  \<^verbatim>\<open>df[col] = s\<close>: replaces the column of that name, or appends a new one. Every series
  the program assigns carries the table's own index, for which pandas stores the values
  as they are.
\<close>

definition setitem :: "DataFrame \<Rightarrow> string \<Rightarrow> Series \<Rightarrow> DataFrame" where
  "setitem df col s =
     df\<lparr>cols :=
       (if col \<in> set (columns df)
        then map (\<lambda>(name, vs). if name = col then (name, svalues s) else (name, vs)) (cols df)
        else cols df @ [(col, svalues s)])\<rparr>"

text \<open>\<^verbatim>\<open>df.iloc[:, 0]\<close>: the first column, IndexError when the table has none.\<close>

definition iloc_col0 :: "DataFrame \<Rightarrow> error + Series" where
  "iloc_col0 df =
     (case cols df of
        [] \<Rightarrow> Inl IndexError
      | (name, vs) # _ \<Rightarrow> Inr \<lparr>sindex = index df, svalues = vs\<rparr>)"

text \<open>
  \<^verbatim>\<open>pd.to_numeric(s, errors="coerce")\<close>: a float column and a bool column are returned as
  they are (bool is a numeric dtype for pandas); in an object column a number stays, a
  boolean becomes 1.0 or 0.0, and text becomes the number it denotes, NaN when it denotes
  none.
\<close>

fun coerce_cell :: "parser \<Rightarrow> cell \<Rightarrow> cell" where
  "coerce_cell p (Num x) = Num x"
| "coerce_cell p (Bool b) = Num (bool_to_float b)"
| "coerce_cell p (Str t) = Num (case to_numeric_text p t of Some x \<Rightarrow> x | None \<Rightarrow> NaN)"

definition to_numeric_cells :: "parser \<Rightarrow> cell list \<Rightarrow> cell list" where
  "to_numeric_cells p vs = (if list_all is_bool vs then vs else map (coerce_cell p) vs)"

definition to_numeric_coerce :: "parser \<Rightarrow> Series \<Rightarrow> Series" where
  "to_numeric_coerce p s = s\<lparr>svalues := to_numeric_cells p (svalues s)\<rparr>"

text \<open>
  \<^verbatim>\<open>s.astype(float)\<close>: a number stays, a boolean becomes 1.0 or 0.0, and text goes through
  Python's \<^verbatim>\<open>float\<close>, which raises ValueError on text that is no number.
\<close>

fun cell_to_float :: "parser \<Rightarrow> cell \<Rightarrow> pyfloat option" where
  "cell_to_float p (Num x) = Some x"
| "cell_to_float p (Bool b) = Some (bool_to_float b)"
| "cell_to_float p (Str t) = float_text p t"

fun floats_of :: "parser \<Rightarrow> cell list \<Rightarrow> pyfloat list option" where
  "floats_of p [] = Some []"
| "floats_of p (c # cs) =
     (case cell_to_float p c of
        None \<Rightarrow> None
      | Some x \<Rightarrow> (case floats_of p cs of None \<Rightarrow> None | Some xs \<Rightarrow> Some (x # xs)))"

definition astype_float :: "parser \<Rightarrow> Series \<Rightarrow> error + Series" where
  "astype_float p s =
     (case floats_of p (svalues s) of
        None \<Rightarrow> Inl ValueError
      | Some xs \<Rightarrow> Inr (s\<lparr>svalues := map Num xs\<rparr>))"

text \<open>The loop \<^verbatim>\<open>for col in df.columns: df[col] = pd.to_numeric(df[col], errors="coerce")\<close>.\<close>

fun coerce_columns :: "parser \<Rightarrow> string list \<Rightarrow> DataFrame \<Rightarrow> error + DataFrame" where
  "coerce_columns p [] df = Inr df"
| "coerce_columns p (col # rest) df =
     (case getitem df col of
        Inl e \<Rightarrow> Inl e
      | Inr s \<Rightarrow> coerce_columns p rest (setitem df col (to_numeric_coerce p s)))"

definition load_price_data :: "parser \<Rightarrow> filesystem \<Rightarrow> string \<Rightarrow> error + DataFrame" where
  "load_price_data p fs file_path =
     and_then (read_csv p fs file_path) (\<lambda>df. coerce_columns p (columns df) df)"

definition load_weather_data :: "parser \<Rightarrow> filesystem \<Rightarrow> string \<Rightarrow> error + DataFrame" where
  "load_weather_data p fs file_path =
     and_then (read_csv p fs file_path) (\<lambda>df.
     and_then (getitem df ''temperature'') (\<lambda>s.
       Inr (setitem df ''temperature'' (to_numeric_coerce p s))))"

text \<open>
  \<^verbatim>\<open>temp = temperature.astype(float)\<close>, then \<^verbatim>\<open>hdd = np.maximum(0, base_temperature - temp)\<close>
  and \<^verbatim>\<open>cdd = np.maximum(0, temp - base_temperature)\<close>, computed element by element, as the
  columns HDD and CDD under the index of \<open>temp\<close>.
\<close>

definition hdd :: "pyfloat \<Rightarrow> pyfloat \<Rightarrow> pyfloat" where
  "hdd base_temperature t = np_maximum (Fin 0) (fsub base_temperature t)"

definition cdd :: "pyfloat \<Rightarrow> pyfloat \<Rightarrow> pyfloat" where
  "cdd base_temperature t = np_maximum (Fin 0) (fsub t base_temperature)"

definition compute_degree_days :: "parser \<Rightarrow> Series \<Rightarrow> pyfloat \<Rightarrow> error + DataFrame" where
  "compute_degree_days p temperature base_temperature =
     (case floats_of p (svalues temperature) of
        None \<Rightarrow> Inl ValueError
      | Some temp \<Rightarrow>
          Inr \<lparr>index = sindex temperature,
               cols = [(''HDD'', map (\<lambda>t. Num (hdd base_temperature t)) temp),
                       (''CDD'', map (\<lambda>t. Num (cdd base_temperature t)) temp)]\<rparr>)"

text \<open>The default of the parameter \<^verbatim>\<open>base_temperature\<close>.\<close>

definition default_base_temperature :: pyfloat where
  "default_base_temperature = Fin 18"

definition load_sentiment_scores :: "parser \<Rightarrow> filesystem \<Rightarrow> string \<Rightarrow> error + Series" where
  "load_sentiment_scores p fs file_path =
     and_then (read_csv p fs file_path) (\<lambda>df.
     and_then (iloc_col0 df) (\<lambda>s. astype_float p s))"

subsection \<open>Forward-fill reindexing\<close>

text \<open>
  \<^verbatim>\<open>obj.reindex(target, method="ffill")\<close>, as pandas computes it. When the labels of the
  target equal those of the source no row moves. Otherwise the source must have unique
  labels (ValueError); an empty target selects nothing; labels of different kinds cannot
  be compared (TypeError); the source must be monotonic, increasing or decreasing
  (ValueError). Then each target label takes the row of the source at its exact match,
  or else the row just before the place where the label would be inserted
  (\<^verbatim>\<open>searchsorted\<close>, on the reversed index when it is decreasing); a label before every row
  of the source gets NaN. A NaN held by the source is a value like any other: it is
  carried, not skipped.
\<close>

fun find_pos :: "'a list \<Rightarrow> 'a \<Rightarrow> nat option" where
  "find_pos [] t = None"
| "find_pos (x # xs) t = (if x = t then Some 0 else map_option Suc (find_pos xs t))"

definition searchsorted_left :: "'a::linorder list \<Rightarrow> 'a \<Rightarrow> nat" where
  "searchsorted_left xs t = length (takeWhile (\<lambda>x. x < t) xs)"

definition searchsorted_right :: "'a::linorder list \<Rightarrow> 'a \<Rightarrow> nat" where
  "searchsorted_right xs t = length (takeWhile (\<lambda>x. x \<le> t) xs)"

definition searchsorted_monotonic :: "'a::linorder list \<Rightarrow> 'a \<Rightarrow> nat" where
  "searchsorted_monotonic src t =
     (if sorted src then searchsorted_left src t
      else length src - searchsorted_right (rev src) t)"

definition pad_one :: "'a::linorder list \<Rightarrow> 'a \<Rightarrow> nat option" where
  "pad_one src t =
     (case find_pos src t of
        Some i \<Rightarrow> Some i
      | None \<Rightarrow>
          (let k = searchsorted_monotonic src t in if k = 0 then None else Some (k - 1)))"

definition pad_indexer :: "'a::linorder list \<Rightarrow> 'a list \<Rightarrow> error + nat option list" where
  "pad_indexer src tgt =
     (if sorted src \<or> sorted (rev src) then Inr (map (pad_one src) tgt) else Inl ValueError)"

fun get_fill_indexer :: "pd_index \<Rightarrow> pd_index \<Rightarrow> error + nat option list" where
  "get_fill_indexer (DatetimeIndex s f) (DatetimeIndex t g) = pad_indexer s t"
| "get_fill_indexer (RangeIndex a b) (RangeIndex c d) = pad_indexer [a..<b] [c..<d]"
| "get_fill_indexer (ObjectIndex s) (ObjectIndex t) = pad_indexer s t"
| "get_fill_indexer _ _ = Inl TypeError"

text \<open>
  The indexer of a reindexing: \<open>None\<close> when no row moves, else the position in the source
  of the row each target label takes (no position: NaN).
\<close>

definition reindex_indexer :: "pd_index \<Rightarrow> pd_index \<Rightarrow> error + nat option list option" where
  "reindex_indexer src tgt =
     (if index_keys src = index_keys tgt then Inr None
      else if \<not> distinct (index_keys src) then Inl ValueError
      else if index_len tgt = 0 then Inr (Some [])
      else and_then (get_fill_indexer src tgt) (\<lambda>ixs. Inr (Some ixs)))"

text \<open>Taking rows by position; a missing position gives NaN.\<close>

definition take_fill :: "cell list \<Rightarrow> nat option list \<Rightarrow> cell list" where
  "take_fill vs ixs =
     map (\<lambda>i. case i of None \<Rightarrow> Num NaN
                | Some j \<Rightarrow> if j < length vs then vs ! j else Num NaN) ixs"

definition take_rows :: "nat option list option \<Rightarrow> cell list \<Rightarrow> cell list" where
  "take_rows indexer vs = (case indexer of None \<Rightarrow> vs | Some ixs \<Rightarrow> take_fill vs ixs)"

definition reindex_ffill :: "DataFrame \<Rightarrow> pd_index \<Rightarrow> error + DataFrame" where
  "reindex_ffill df tgt =
     and_then (reindex_indexer (index df) tgt) (\<lambda>indexer.
       Inr \<lparr>index = tgt, cols = map (\<lambda>(name, vs). (name, take_rows indexer vs)) (cols df)\<rparr>)"

definition reindex_ffill_series :: "Series \<Rightarrow> pd_index \<Rightarrow> error + Series" where
  "reindex_ffill_series s tgt =
     and_then (reindex_indexer (sindex s) tgt) (\<lambda>indexer.
       Inr \<lparr>sindex = tgt, svalues = take_rows indexer (svalues s)\<rparr>)"

subsection \<open>forecasting\_pipeline.py\<close>

record PipelineResult =
  arimax_forecast :: "Series option"
  arimax_garch_mean :: "Series option"
  arimax_garch_vol :: "Series option"
  vecm_forecast :: "DataFrame option"

text \<open>
  The libraries each adapter module found at import: \<^verbatim>\<open>arimax.ARIMA\<close>,
  \<^verbatim>\<open>arimax_garch.ARIMA\<close> with \<^verbatim>\<open>arimax_garch.arch_model\<close>, and \<^verbatim>\<open>vecm_garch.VECM\<close>.
\<close>

record ('m, 'g, 'v) modules =
  arimax_ARIMA :: "'m arima_lib option"
  arimax_garch_ARIMA :: "'m arima_lib option"
  arimax_garch_arch_model :: "'g arch_lib option"
  vecm_garch_VECM :: "'v vecm_lib option"

text \<open>The exogenous table, with the sentiment column when a path is given.\<close>

definition add_sentiment ::
  "parser \<Rightarrow> filesystem \<Rightarrow> string option \<Rightarrow> DataFrame \<Rightarrow> DataFrame \<Rightarrow> error + DataFrame" where
  "add_sentiment p fs sentiment_path price_df exog =
     (case sentiment_path of
        None \<Rightarrow> Inr exog
      | Some path \<Rightarrow>
          and_then (load_sentiment_scores p fs path) (\<lambda>sentiment.
          and_then (reindex_ffill_series sentiment (index price_df)) (\<lambda>aligned.
            Inr (setitem exog ''sentiment'' aligned))))"

definition run_pipeline ::
  "('m, 'g, 'v) modules \<Rightarrow> parser \<Rightarrow> filesystem \<Rightarrow> string \<Rightarrow> string \<Rightarrow> string option \<Rightarrow> int
     \<Rightarrow> error + PipelineResult" where
  "run_pipeline ms p fs price_path weather_path sentiment_path forecast_steps =
     and_then (load_price_data p fs price_path) (\<lambda>price_df.
     and_then (load_weather_data p fs weather_path) (\<lambda>weather_df.
     and_then (getitem weather_df ''temperature'') (\<lambda>temperature.
     and_then (compute_degree_days p temperature default_base_temperature) (\<lambda>degree_days.
     and_then (reindex_ffill degree_days (index price_df)) (\<lambda>exog0.
     and_then (add_sentiment p fs sentiment_path price_df exog0) (\<lambda>exog.
     and_then (iloc_col0 price_df) (\<lambda>price0.
     and_then (fit_arimax (arimax_ARIMA ms) price0 (Some exog) (1, 0, 1) forecast_steps)
       (\<lambda>arimax_fc.
     and_then (iloc_col0 price_df) (\<lambda>price0'.
     and_then (fit_arimax_garch (arimax_garch_ARIMA ms) (arimax_garch_arch_model ms)
                 price0' (Some exog) (1, 0, 1) (1, 1) forecast_steps) (\<lambda>result_garch.
     and_then (if 1 < length (cols price_df)
               then and_then (fit_vecm_garch (vecm_garch_VECM ms) price_df 0 1 None forecast_steps)
                      (\<lambda>r. Inr (Some r))
               else Inr None) (\<lambda>vecm_res.
       Inr \<lparr>arimax_forecast = Some arimax_fc,
            arimax_garch_mean = Some (forecast_mean result_garch),
            arimax_garch_vol = Some (forecast_vol result_garch),
            vecm_forecast = (case vecm_res of None \<Rightarrow> None | Some r \<Rightarrow> Some (forecast r))\<rparr>
     )))))))))))"

subsection \<open>The data-model invariant, in the spec's words\<close>

text \<open>
  The spec's invariant of a time-indexed numeric table: the index is strictly increasing,
  and every value is a float (a number or the missing-value marker).
\<close>

fun spec_index_strictly_increasing :: "pd_index \<Rightarrow> bool" where
  "spec_index_strictly_increasing (DatetimeIndex ts f) = sorted_wrt (<) ts"
| "spec_index_strictly_increasing (RangeIndex start stop) = True"
| "spec_index_strictly_increasing (ObjectIndex names) = sorted_wrt (<) names"

definition spec_all_numeric :: "DataFrame \<Rightarrow> bool" where
  "spec_all_numeric df = list_all (\<lambda>(name, vs). list_all is_num vs) (cols df)"

section \<open>Concrete inputs\<close>

text \<open>Small inputs on which the properties below are evaluated.\<close>

definition price200 :: DataFrame where
  "price200 =
     \<lparr>index = DatetimeIndex (map (\<lambda>k. 3600 * int k) [0..<200]) (Some 3600),
      cols = [(''day_ahead'', replicate 200 (Num (Fin 30))),
              (''real_time'', replicate 200 (Num (Fin 31)))]\<rparr>"

definition toy_vecm :: "unit vecm_lib" where
  "toy_vecm =
     \<lparr>vecm_fit = (\<lambda>df d k r. Inr ()),
      predict = (\<lambda>m steps. Inr (replicate (nat steps) [Fin 0, Fin 0]))\<rparr>"

text \<open>
  A parser that knows a few numerals and the two booleans, and takes the empty cell and
  \<^verbatim>\<open>NA\<close> for missing; every other text denotes nothing.
\<close>

definition toy_numbers :: "(string \<times> pyfloat) list" where
  "toy_numbers =
     [(''18.0'', Fin 18), (''25.5'', Fin 25.5), (''10.0'', Fin 10), (''30.0'', Fin 30),
      (''31.5'', Fin 31.5), (''0.4'', Fin 0.4)]"

definition toy_parser :: parser where
  "toy_parser =
     \<lparr>na_text = (\<lambda>s. s = [] \<or> s = ''NA''),
      number_text = map_of toy_numbers,
      bool_text = map_of [(''True'', True), (''False'', False)],
      to_numeric_text = map_of toy_numbers,
      float_text = map_of toy_numbers\<rparr>"

definition weather_file :: csv_file where
  "weather_file =
     \<lparr>stamps = [0, 1],
      fcols = [(''temperature'', [''25.5'', ''bad'']), (''humidity'', [''0.4'', ''high''])]\<rparr>"

definition price_file_unsorted :: csv_file where
  "price_file_unsorted =
     \<lparr>stamps = [2, 1], fcols = [(''day_ahead'', [''30.0'', ''31.5''])]\<rparr>"

definition price_file_pair :: csv_file where
  "price_file_pair =
     \<lparr>stamps = [0, 1, 2],
      fcols = [(''day_ahead'', [''30.0'', ''31.5'', ''oops'']),
               (''real_time'', [''31.5'', [], ''30.0''])]\<rparr>"

text \<open>A price file with a column of booleans, and one of booleans with a missing cell.\<close>

definition price_file_flags :: csv_file where
  "price_file_flags =
     \<lparr>stamps = [0, 1],
      fcols = [(''day_ahead'', [''30.0'', ''31.5'']), (''peak'', [''True'', ''False'']),
               (''holiday'', [''True'', []])]\<rparr>"

text \<open>A weather file that lists the newest observation first.\<close>

definition weather_file_newest_first :: csv_file where
  "weather_file_newest_first =
     \<lparr>stamps = [4, 2, 0], fcols = [(''temperature'', [''18.0'', ''25.5'', ''10.0''])]\<rparr>"

definition sentiment_file :: csv_file where
  "sentiment_file =
     \<lparr>stamps = [0, 2],
      fcols = [(''sentiment'', [''0.4'', ''0.4'']), (''source'', [''wire'', ''blog''])]\<rparr>"

definition sentiment_file_bad :: csv_file where
  "sentiment_file_bad =
     \<lparr>stamps = [0, 1], fcols = [(''sentiment'', [''0.4'', ''bad''])]\<rparr>"

definition toy_fs :: filesystem where
  "toy_fs =
     map_of [(''weather.csv'', weather_file), (''prices.csv'', price_file_unsorted),
             (''prices2.csv'', price_file_pair), (''sentiment.csv'', sentiment_file),
             (''sentiment_bad.csv'', sentiment_file_bad), (''flags.csv'', price_file_flags),
             (''weather_newest_first.csv'', weather_file_newest_first)]"

text \<open>No estimation library installed.\<close>

definition no_modules :: "(unit, unit, unit) modules" where
  "no_modules =
     \<lparr>arimax_ARIMA = None, arimax_garch_ARIMA = None, arimax_garch_arch_model = None,
      vecm_garch_VECM = None\<rparr>"

text \<open>A VECM estimator whose fit does not converge.\<close>

definition failing_vecm :: "unit vecm_lib" where
  "failing_vecm =
     \<lparr>vecm_fit = (\<lambda>df d k r. Inl (BackendError ''no convergence'')),
      predict = (\<lambda>m steps. Inr [])\<rparr>"

text \<open>A classifier with three fixed answers, and three texts.\<close>

definition toy_classifier :: sentiment_pipeline where
  "toy_classifier text =
     (if text = ''prices surge'' then Inr [\<lparr>label = ''Positive'', score = Fin 0.9\<rparr>]
      else if text = ''outage fears'' then Inr [\<lparr>label = ''negative'', score = Fin 0.7\<rparr>]
      else Inr [\<lparr>label = ''neutral'', score = Fin 0.8\<rparr>])"

definition toy_transformers :: transformers_lib where
  "toy_transformers task model = Inr toy_classifier"

definition toy_texts :: "string list" where
  "toy_texts = [''prices surge'', ''outage fears'', ''markets flat'']"

text \<open>A table of degree days with a gap, a target index, and the table aligned onto it.\<close>

definition toy_degree_days :: DataFrame where
  "toy_degree_days =
     \<lparr>index = DatetimeIndex [0, 2, 4] None,
      cols = [(''HDD'', [Num (Fin 8), Num NaN, Num (Fin 0)]),
              (''CDD'', [Num (Fin 0), Num NaN, Num (Fin 7.5)])]\<rparr>"

definition toy_target :: pd_index where
  "toy_target = DatetimeIndex [- 1, 1, 2, 5] None"

definition toy_aligned :: DataFrame where
  "toy_aligned =
     \<lparr>index = DatetimeIndex [- 1, 1, 2, 5] None,
      cols = [(''HDD'', [Num NaN, Num (Fin 8), Num NaN, Num (Fin 0)]),
              (''CDD'', [Num NaN, Num (Fin 0), Num NaN, Num (Fin 7.5)])]\<rparr>"

section \<open>Properties\<close>

subsection \<open>Results in the error monad\<close>

lemma and_then_Inr_iff:
  "and_then r f = Inr y \<longleftrightarrow> (\<exists>x. r = Inr x \<and> f x = Inr y)"
  by (cases r) (simp_all add: and_then_def)

lemma and_then_Inr [simp]: "and_then (Inr x) f = f x"
  by (simp add: and_then_def)

lemma and_then_Inl [simp]: "and_then (Inl e) f = Inl e"
  by (simp add: and_then_def)

lemma and_then_assoc: "and_then (and_then r f) k = and_then r (\<lambda>x. and_then (f x) k)"
  by (cases r) simp_all

lemma and_then_cong_Inr:
  "(\<And>x. r = Inr x \<Longrightarrow> f x = g x) \<Longrightarrow> and_then r f = and_then r g"
  by (cases r) simp_all

subsection \<open>Assigned series carry the table's index\<close>

text \<open>
  The three assignments of the program store a series whose index is the table's own:
  in the loaders the coerced column of the table itself, in the orchestrator a series
  and a table aligned onto the same price index.
\<close>

lemma getitem_index:
  "getitem df col = Inr s \<Longrightarrow> sindex (to_numeric_coerce p s) = index df"
  by (auto simp add: getitem_def to_numeric_coerce_def split: option.splits)

lemma aligned_index:
  "reindex_ffill degree_days tgt = Inr exog \<Longrightarrow> reindex_ffill_series sentiment tgt = Inr aligned
     \<Longrightarrow> sindex aligned = index exog"
  by (auto simp add: reindex_ffill_def reindex_ffill_series_def and_then_Inr_iff)

subsection \<open>Degraded mode of the adapters\<close>

text \<open>
  C1. Whatever the target series, the exogenous table and the horizon \<open>h\<close>, when the
  estimation library is absent: \<open>fit_arimax\<close> returns \<open>h\<close> NaN values; \<open>fit_arimax_garch\<close>
  (either of its two libraries absent) returns no mean model, no volatility model, and
  \<open>h\<close> NaN values for each forecast; \<open>fit_vecm_garch\<close> returns no model and a table with
  the columns of the input, each holding \<open>h\<close> NaN values, over \<open>h\<close> default row labels
  (a table without columns has no rows). The count \<open>nat h\<close> is \<open>h\<close> for a horizon
  \<open>h \<ge> 0\<close>; Python's list repetition gives the empty list for a negative one. The module
  of \<open>fit_arimax_garch\<close> holds neither library as soon as one of the two imports failed.
\<close>

theorem degraded_adapters_return_nan:
  "fit_arimax None series exog order h =
     Inr \<lparr>sindex = RangeIndex 0 (nat h), svalues = replicate (nat h) (Num NaN)\<rparr>
   \<and> fit_arimax_garch None arch_model series exog arima_order garch_order h =
     Inr \<lparr>mean_model = None, vol_model = None,
          forecast_mean = \<lparr>sindex = RangeIndex 0 (nat h), svalues = replicate (nat h) (Num NaN)\<rparr>,
          forecast_vol = \<lparr>sindex = RangeIndex 0 (nat h), svalues = replicate (nat h) (Num NaN)\<rparr>\<rparr>
   \<and> fit_arimax_garch ARIMA None series exog arima_order garch_order h =
     Inr \<lparr>mean_model = None, vol_model = None,
          forecast_mean = \<lparr>sindex = RangeIndex 0 (nat h), svalues = replicate (nat h) (Num NaN)\<rparr>,
          forecast_vol = \<lparr>sindex = RangeIndex 0 (nat h), svalues = replicate (nat h) (Num NaN)\<rparr>\<rparr>
   \<and> fit_vecm_garch None table det_order k_ar_diff rank h =
     Inr \<lparr>vecm_model = None,
          forecast = \<lparr>index = RangeIndex 0 (if cols table = [] then 0 else nat h),
                      cols = map (\<lambda>name. (name, replicate (nat h) (Num NaN))) (columns table)\<rparr>\<rparr>
   \<and> import_arimax_garch None arch = (None, None)
   \<and> import_arimax_garch statsmodels None = (None, None)"
proof -
  have a: "fit_arimax None series exog order h =
     Inr \<lparr>sindex = RangeIndex 0 (nat h), svalues = replicate (nat h) (Num NaN)\<rparr>"
    by (simp add: fit_arimax_def pd_Series_def py_repeat_def)
  have g1: "fit_arimax_garch None arch_model series exog arima_order garch_order h =
     Inr \<lparr>mean_model = None, vol_model = None,
          forecast_mean = \<lparr>sindex = RangeIndex 0 (nat h), svalues = replicate (nat h) (Num NaN)\<rparr>,
          forecast_vol = \<lparr>sindex = RangeIndex 0 (nat h), svalues = replicate (nat h) (Num NaN)\<rparr>\<rparr>"
    by (simp add: fit_arimax_garch_def pd_Series_def py_repeat_def)
  have g2: "fit_arimax_garch ARIMA None series exog arima_order garch_order h =
     Inr \<lparr>mean_model = None, vol_model = None,
          forecast_mean = \<lparr>sindex = RangeIndex 0 (nat h), svalues = replicate (nat h) (Num NaN)\<rparr>,
          forecast_vol = \<lparr>sindex = RangeIndex 0 (nat h), svalues = replicate (nat h) (Num NaN)\<rparr>\<rparr>"
    by (cases ARIMA) (simp_all add: fit_arimax_garch_def pd_Series_def py_repeat_def)
  have v: "fit_vecm_garch None table det_order k_ar_diff rank h =
     Inr \<lparr>vecm_model = None,
          forecast = \<lparr>index = RangeIndex 0 (if cols table = [] then 0 else nat h),
                      cols = map (\<lambda>name. (name, replicate (nat h) (Num NaN))) (columns table)\<rparr>\<rparr>"
    by (simp add: fit_vecm_garch_def pd_DataFrame_const_def py_repeat_def columns_def)
  have i: "import_arimax_garch None arch = (None, None)
      \<and> import_arimax_garch statsmodels None = (None, None)"
    by (cases statsmodels) (simp_all add: import_arimax_garch_def)
  from a g1 g2 v i show ?thesis by blast
qed

text \<open>
  C8. Whatever the list of texts, when the transformers library is absent
  \<open>compute_finbert_sentiment\<close> returns one score per text, each exactly 0.0.
\<close>

theorem sentiment_degraded_zero_filled:
  "compute_finbert_sentiment None texts =
     Inr \<lparr>sindex = RangeIndex 0 (length texts),
          svalues = replicate (length texts) (Num (Fin 0))\<rparr>"
  by (simp add: compute_finbert_sentiment_def pd_Series_def py_repeat_def)

text \<open>
  C9. In degraded mode the forecasts of \<open>fit_arimax\<close> and \<open>fit_arimax_garch\<close> are
  labelled by the positions \<open>0 .. h - 1\<close>, not by timestamps, and they are the same
  whatever series, exogenous table and orders were passed: nothing of the input's index
  reaches the output.
\<close>

theorem degraded_forecasts_have_positional_index:
  "(\<exists>s. fit_arimax None series exog order h = Inr s
        \<and> index_keys (sindex s) = map (\<lambda>k. IntKey (int k)) [0..<nat h]
        \<and> \<not> is_datetime (sindex s))
   \<and> (\<exists>r. fit_arimax_garch None arch_model series exog arima_order garch_order h = Inr r
        \<and> index_keys (sindex (forecast_mean r)) = map (\<lambda>k. IntKey (int k)) [0..<nat h]
        \<and> index_keys (sindex (forecast_vol r)) = map (\<lambda>k. IntKey (int k)) [0..<nat h]
        \<and> \<not> is_datetime (sindex (forecast_mean r)) \<and> \<not> is_datetime (sindex (forecast_vol r)))
   \<and> (\<exists>r. fit_arimax_garch ARIMA None series exog arima_order garch_order h = Inr r
        \<and> index_keys (sindex (forecast_mean r)) = map (\<lambda>k. IntKey (int k)) [0..<nat h]
        \<and> index_keys (sindex (forecast_vol r)) = map (\<lambda>k. IntKey (int k)) [0..<nat h]
        \<and> \<not> is_datetime (sindex (forecast_mean r)) \<and> \<not> is_datetime (sindex (forecast_vol r)))
   \<and> fit_arimax None series exog order h = fit_arimax None series' exog' order' h
   \<and> fit_arimax_garch None arch_model series exog arima_order garch_order h =
       fit_arimax_garch None arch_model' series' exog' arima_order' garch_order' h
   \<and> fit_arimax_garch ARIMA None series exog arima_order garch_order h =
       fit_arimax_garch ARIMA' None series' exog' arima_order' garch_order' h"
proof -
  have g: "\<And>A (s :: Series) e ao go. fit_arimax_garch A None s e ao go h =
     Inr \<lparr>mean_model = None, vol_model = None,
          forecast_mean = pd_Series (py_repeat (Num NaN) h),
          forecast_vol = pd_Series (py_repeat (Num NaN) h)\<rparr>"
    subgoal for A s e ao go
      by (cases A) (simp_all add: fit_arimax_garch_def)
    done
  show ?thesis
    unfolding g
    by (simp add: fit_arimax_def fit_arimax_garch_def pd_Series_def py_repeat_def)
qed

subsection \<open>The multivariate adapter's index\<close>

text \<open>
  With the library present, the index of the forecast cannot be built from an empty
  table, from a table without timestamps, or for a horizon below \<open>-1\<close>.
\<close>

lemma forecast_index_raises:
  "forecast_index (DatetimeIndex [] f) h = Inl IndexError"
  "ts \<noteq> [] \<Longrightarrow> h < - 1 \<Longrightarrow> forecast_index (DatetimeIndex ts f) h = Inl ValueError"
  "start < stop \<Longrightarrow> forecast_index (RangeIndex start stop) h = Inl AttributeError"
  "names \<noteq> [] \<Longrightarrow> forecast_index (ObjectIndex names) h = Inl AttributeError"
  by simp_all

text \<open>
  C3, as the claim states it, fails: for a table of two columns over 200 hourly rows and
  the library absent, the forecast table has 24 rows of NaN in 2 columns, but its rows are
  labelled by the default positions; the 24 hourly timestamps that continue the input
  (hours \<open>200 .. 223\<close>) are not its index.
\<close>

theorem vecm_degraded_index_not_timestamps:
  "fit_vecm_garch (None :: unit vecm_lib option) price200 0 1 None 24 =
     Inr \<lparr>vecm_model = None,
          forecast = \<lparr>index = RangeIndex 0 24,
                      cols = [(''day_ahead'', replicate 24 (Num NaN)),
                              (''real_time'', replicate 24 (Num NaN))]\<rparr>\<rparr>
   \<and> index_len (index price200) = 200
   \<and> forecast_index (index price200) 24 =
       Inr (DatetimeIndex (map (\<lambda>k. 3600 * int k) [200..<224]) (Some 3600))
   \<and> \<not> is_datetime (RangeIndex 0 24)"
  by code_simp

text \<open>
  C3, amended. For every table of two columns (over 200 rows or any other number) and the
  library absent, the forecast table has 24 rows and 2 columns with the input's names,
  every value NaN, and is indexed by the default positions \<open>0 .. 23\<close>, which are no
  timestamps: the degraded output is the same whatever the index and the values of the
  input, so it carries no timestamp that extends the input's index.
\<close>

theorem vecm_degraded_table_positional:
  "fit_vecm_garch None \<lparr>index = idx, cols = [(a, va), (b, vb)]\<rparr> det_order k_ar_diff rank 24 =
     Inr \<lparr>vecm_model = None,
          forecast = \<lparr>index = RangeIndex 0 24,
                      cols = [(a, replicate 24 (Num NaN)), (b, replicate 24 (Num NaN))]\<rparr>\<rparr>
   \<and> index_keys (RangeIndex 0 24) = map (\<lambda>k. IntKey (int k)) [0..<24]
   \<and> \<not> is_datetime (RangeIndex 0 24)
   \<and> fit_vecm_garch None \<lparr>index = idx, cols = [(a, va), (b, vb)]\<rparr> det_order k_ar_diff rank 24 =
     fit_vecm_garch None \<lparr>index = idx', cols = [(a, va'), (b, vb')]\<rparr> det_order' k_ar_diff' rank' 24"
  by (simp add: fit_vecm_garch_def pd_DataFrame_const_def py_repeat_def columns_def)

subsection \<open>Degree days\<close>

lemma floats_of_map_Num [simp]: "floats_of p (map Num temp) = Some temp"
  by (induction temp) simp_all

text \<open>
  C2, as the claim states it, fails at a missing temperature, which the weather loader
  produces from a malformed cell: with the default base 18, both HDD and CDD are NaN
  there, so neither is \<open>\<ge> 0\<close>, and although \<open>t \<noteq> b\<close> holds both differ from zero.
\<close>

theorem degree_days_missing_temperature:
  "load_weather_data toy_parser toy_fs ''weather.csv'' =
     Inr \<lparr>index = DatetimeIndex [0, 1] None,
          cols = [(''temperature'', [Num (Fin 25.5), Num NaN]),
                  (''humidity'', [Str ''0.4'', Str ''high''])]\<rparr>
   \<and> compute_degree_days toy_parser
        \<lparr>sindex = DatetimeIndex [0, 1] None, svalues = [Num (Fin 25.5), Num NaN]\<rparr>
        default_base_temperature =
     Inr \<lparr>index = DatetimeIndex [0, 1] None,
          cols = [(''HDD'', [Num (Fin 0), Num NaN]), (''CDD'', [Num (Fin 7.5), Num NaN])]\<rparr>
   \<and> hdd (Fin 18) NaN = NaN \<and> cdd (Fin 18) NaN = NaN
   \<and> \<not> fge (hdd (Fin 18) NaN) (Fin 0) \<and> \<not> fge (cdd (Fin 18) NaN) (Fin 0)
   \<and> fne NaN (Fin 18) \<and> fne (hdd (Fin 18) NaN) (Fin 0) \<and> fne (cdd (Fin 18) NaN) (Fin 0)"
  by code_simp

text \<open>
  C2, amended. On a series of floats \<open>compute_degree_days\<close> returns the columns HDD and
  CDD computed element by element. For every finite temperature \<open>t\<close> and finite base
  \<open>b\<close> (18 by default): HDD is \<open>max 0 (b - t)\<close> and CDD is \<open>max 0 (t - b)\<close>;
  \<open>HDD + (t - b) == CDD\<close> when \<open>t \<ge> b\<close>; both are \<open>\<ge> 0\<close>; exactly one of them is
  nonzero when \<open>t \<noteq> b\<close>. A missing temperature, or a missing base, gives NaN for both.
\<close>

theorem degree_days_finite:
  "compute_degree_days p \<lparr>sindex = idx, svalues = map Num temp\<rparr> base =
     Inr \<lparr>index = idx,
          cols = [(''HDD'', map (\<lambda>t. Num (hdd base t)) temp),
                  (''CDD'', map (\<lambda>t. Num (cdd base t)) temp)]\<rparr>
   \<and> hdd default_base_temperature (Fin t) = Fin (max 0 (18 - t))
   \<and> cdd default_base_temperature (Fin t) = Fin (max 0 (t - 18))
   \<and> hdd (Fin b) (Fin t) = Fin (max 0 (b - t))
   \<and> cdd (Fin b) (Fin t) = Fin (max 0 (t - b))
   \<and> (fge (Fin t) (Fin b) \<longrightarrow>
        feq (fadd (hdd (Fin b) (Fin t)) (fsub (Fin t) (Fin b))) (cdd (Fin b) (Fin t)))
   \<and> fge (hdd (Fin b) (Fin t)) (Fin 0)
   \<and> fge (cdd (Fin b) (Fin t)) (Fin 0)
   \<and> (fne (Fin t) (Fin b) \<longrightarrow>
        (fne (hdd (Fin b) (Fin t)) (Fin 0) \<noteq> fne (cdd (Fin b) (Fin t)) (Fin 0)))
   \<and> hdd base NaN = NaN \<and> cdd base NaN = NaN \<and> hdd NaN t' = NaN \<and> cdd NaN t' = NaN"
proof -
  have run: "compute_degree_days p \<lparr>sindex = idx, svalues = map Num temp\<rparr> base =
     Inr \<lparr>index = idx,
          cols = [(''HDD'', map (\<lambda>t. Num (hdd base t)) temp),
                  (''CDD'', map (\<lambda>t. Num (cdd base t)) temp)]\<rparr>"
    by (simp add: compute_degree_days_def)
  have nan: "hdd base NaN = NaN \<and> cdd base NaN = NaN \<and> hdd NaN t' = NaN \<and> cdd NaN t' = NaN"
    by (cases base; cases t') (simp_all add: hdd_def cdd_def)
  have fin: "hdd (Fin b) (Fin t) = Fin (max 0 (b - t)) \<and> cdd (Fin b) (Fin t) = Fin (max 0 (t - b))"
    by (simp add: hdd_def cdd_def)
  have sum: "fge (Fin t) (Fin b) \<longrightarrow>
        feq (fadd (hdd (Fin b) (Fin t)) (fsub (Fin t) (Fin b))) (cdd (Fin b) (Fin t))"
    by (simp add: hdd_def cdd_def max_def)
  have sign: "fge (hdd (Fin b) (Fin t)) (Fin 0) \<and> fge (cdd (Fin b) (Fin t)) (Fin 0)"
    by (simp add: hdd_def cdd_def)
  have one: "fne (Fin t) (Fin b) \<longrightarrow>
        (fne (hdd (Fin b) (Fin t)) (Fin 0) \<noteq> fne (cdd (Fin b) (Fin t)) (Fin 0))"
    by (auto simp add: hdd_def cdd_def fne_def max_def)
  have dflt: "hdd default_base_temperature (Fin t) = Fin (max 0 (18 - t))
      \<and> cdd default_base_temperature (Fin t) = Fin (max 0 (t - 18))"
    by (simp add: hdd_def cdd_def default_base_temperature_def)
  from run nan fin sum sign one dflt show ?thesis
    by (simp only: simp_thms)
qed

theorem degree_days_finite_witness:
  "fge (Fin 25.5) (Fin 18) \<and> fne (Fin 25.5) (Fin 18)
   \<and> feq (fadd (hdd (Fin 18) (Fin 25.5)) (fsub (Fin 25.5) (Fin 18))) (cdd (Fin 18) (Fin 25.5))
   \<and> (fne (hdd (Fin 18) (Fin 25.5)) (Fin 0) \<noteq> fne (cdd (Fin 18) (Fin 25.5)) (Fin 0))
   \<and> hdd (Fin 18) (Fin 25.5) = Fin 0 \<and> cdd (Fin 18) (Fin 25.5) = Fin 7.5"
  using degree_days_finite [where b = 18 and t = "25.5"]
  by (simp add: fne_def)

subsection \<open>Sentiment scores\<close>

lemma score_texts_acc:
  "score_texts sp texts acc = Inr out \<Longrightarrow>
     \<exists>ys. out = acc @ ys \<and>
       list_all2 (\<lambda>text y. \<exists>r rs. sp text = Inr (r # rs) \<and>
                    y = spec_signed_score (lower (label r)) (score r)) texts ys"
proof (induction texts arbitrary: acc)
  case Nil
  then show ?case by simp
next
  case (Cons doc rest)
  from Cons.prems obtain r rs where sp: "sp doc = Inr (r # rs)"
    by (auto split: sum.splits list.splits)
  let ?y = "spec_signed_score (lower (label r)) (score r)"
  from Cons.prems sp have "score_texts sp rest (acc @ [?y]) = Inr out"
    by (auto simp add: spec_signed_score_def split: if_splits)
  from Cons.IH [OF this] obtain ys where
    "out = (acc @ [?y]) @ ys" and
    "list_all2 (\<lambda>text y. \<exists>r rs. sp text = Inr (r # rs) \<and>
                    y = spec_signed_score (lower (label r)) (score r)) rest ys"
    by blast
  with sp show ?case by auto
qed

lemma score_texts_total:
  "\<forall>t\<in>set texts. \<exists>r rs. sp t = Inr (r # rs) \<Longrightarrow> \<exists>out. score_texts sp texts acc = Inr out"
proof (induction texts arbitrary: acc)
  case Nil
  then show ?case by simp
next
  case (Cons doc rest)
  then obtain r rs where sp: "sp doc = Inr (r # rs)" by auto
  from Cons have "\<And>acc'. \<exists>out. score_texts sp rest acc' = Inr out" by simp
  with sp show ?case by simp
qed

text \<open>
  C4. With the library present, whenever \<open>compute_finbert_sentiment\<close> returns, it returns
  one score per text, in order, and the score of a text is the signed score of the
  classifier's first result for it: the confidence for the label positive, its negation
  for negative, and exactly 0.0 for any other label (neutral), whatever the confidence.
  The label is compared after \<^verbatim>\<open>lower()\<close>. It returns whenever the classifier can be built and
  answers every text with at least one result. In particular positive with 0.9 gives
  0.9 and negative with 0.7 gives -0.7.
\<close>

theorem finbert_label_mapping:
  "(compute_finbert_sentiment (Some build) texts = Inr s \<longrightarrow>
     (\<exists>sp. build ''sentiment-analysis'' ''ProsusAI/finbert'' = Inr sp
        \<and> sindex s = RangeIndex 0 (length texts) \<and> length (svalues s) = length texts
        \<and> (\<forall>i<length texts. \<exists>r rs. sp (texts ! i) = Inr (r # rs)
              \<and> svalues s ! i = Num (spec_signed_score (lower (label r)) (score r)))))
   \<and> (build ''sentiment-analysis'' ''ProsusAI/finbert'' = Inr sp'
        \<and> (\<forall>i<length texts. \<exists>r rs. sp' (texts ! i) = Inr (r # rs))
      \<longrightarrow> (\<exists>s'. compute_finbert_sentiment (Some build) texts = Inr s'))
   \<and> spec_signed_score ''positive'' c = c
   \<and> spec_signed_score ''negative'' c = fneg c
   \<and> spec_signed_score ''neutral'' c = Fin 0
   \<and> lower ''positive'' = ''positive'' \<and> lower ''negative'' = ''negative''
   \<and> lower ''neutral'' = ''neutral''
   \<and> spec_signed_score ''positive'' (Fin 0.9) = Fin 0.9
   \<and> spec_signed_score ''negative'' (Fin 0.7) = Fin (- 0.7)"
proof -
  have map: "\<exists>sp. build ''sentiment-analysis'' ''ProsusAI/finbert'' = Inr sp
        \<and> sindex s = RangeIndex 0 (length texts) \<and> length (svalues s) = length texts
        \<and> (\<forall>i<length texts. \<exists>r rs. sp (texts ! i) = Inr (r # rs)
              \<and> svalues s ! i = Num (spec_signed_score (lower (label r)) (score r)))"
    if run: "compute_finbert_sentiment (Some build) texts = Inr s"
  proof -
    from run obtain sp scores where
      sp: "build ''sentiment-analysis'' ''ProsusAI/finbert'' = Inr sp"
      and sc: "score_texts sp texts [] = Inr scores"
      and s: "s = pd_Series (map Num scores)"
      by (auto simp add: compute_finbert_sentiment_def and_then_Inr_iff)
    from score_texts_acc [OF sc] have
      l2: "list_all2 (\<lambda>text y. \<exists>r rs. sp text = Inr (r # rs) \<and>
                    y = spec_signed_score (lower (label r)) (score r)) texts scores"
      by simp
    then have len: "length scores = length texts"
      by (simp add: list_all2_lengthD)
    have "\<exists>r rs. sp (texts ! i) = Inr (r # rs)
              \<and> svalues s ! i = Num (spec_signed_score (lower (label r)) (score r))"
      if "i < length texts" for i
      using list_all2_nthD [OF l2 that] that len s by (simp add: pd_Series_def)
    with sp len s show ?thesis by (auto simp add: pd_Series_def)
  qed
  have total: "\<exists>s'. compute_finbert_sentiment (Some build) texts = Inr s'"
    if b: "build ''sentiment-analysis'' ''ProsusAI/finbert'' = Inr sp'"
      and a: "\<forall>i<length texts. \<exists>r rs. sp' (texts ! i) = Inr (r # rs)"
  proof -
    from a have "\<forall>t\<in>set texts. \<exists>r rs. sp' t = Inr (r # rs)"
      by (auto simp add: in_set_conv_nth)
    from score_texts_total [OF this] obtain out where "score_texts sp' texts [] = Inr out"
      by blast
    with b show ?thesis by (simp add: compute_finbert_sentiment_def)
  qed
  have lows: "lower ''positive'' = ''positive'' \<and> lower ''negative'' = ''negative''
      \<and> lower ''neutral'' = ''neutral''"
    by code_simp
  have spec: "spec_signed_score ''positive'' c = c \<and> spec_signed_score ''negative'' c = fneg c
      \<and> spec_signed_score ''neutral'' c = Fin 0
      \<and> spec_signed_score ''positive'' (Fin 0.9) = Fin 0.9
      \<and> spec_signed_score ''negative'' (Fin 0.7) = Fin (- 0.7)"
    by (simp add: spec_signed_score_def)
  from map total lows spec show ?thesis by blast
qed

theorem finbert_label_mapping_witness:
  "compute_finbert_sentiment (Some toy_transformers) toy_texts =
     Inr \<lparr>sindex = RangeIndex 0 3, svalues = [Num (Fin 0.9), Num (Fin (- 0.7)), Num (Fin 0)]\<rparr>
   \<and> (\<exists>sp. toy_transformers ''sentiment-analysis'' ''ProsusAI/finbert'' = Inr sp
        \<and> (\<exists>r rs. sp (toy_texts ! 0) = Inr (r # rs)
              \<and> Num (Fin 0.9) = Num (spec_signed_score (lower (label r)) (score r)))
        \<and> (\<exists>r rs. sp (toy_texts ! 1) = Inr (r # rs)
              \<and> Num (Fin (- 0.7)) = Num (spec_signed_score (lower (label r)) (score r)))
        \<and> (\<exists>r rs. sp (toy_texts ! 2) = Inr (r # rs)
              \<and> Num (Fin 0) = Num (spec_signed_score (lower (label r)) (score r))))
   \<and> toy_transformers ''sentiment-analysis'' ''ProsusAI/finbert'' = Inr toy_classifier
   \<and> toy_classifier (toy_texts ! 0) = Inr [\<lparr>label = ''Positive'', score = Fin 0.9\<rparr>]
   \<and> toy_classifier (toy_texts ! 1) = Inr [\<lparr>label = ''negative'', score = Fin 0.7\<rparr>]
   \<and> toy_classifier (toy_texts ! 2) = Inr [\<lparr>label = ''neutral'', score = Fin 0.8\<rparr>]"
proof -
  have run: "compute_finbert_sentiment (Some toy_transformers) toy_texts =
     Inr \<lparr>sindex = RangeIndex 0 3, svalues = [Num (Fin 0.9), Num (Fin (- 0.7)), Num (Fin 0)]\<rparr>"
    by code_simp
  have len: "length toy_texts = 3" by (simp add: toy_texts_def)
  have cls: "toy_transformers ''sentiment-analysis'' ''ProsusAI/finbert'' = Inr toy_classifier
   \<and> toy_classifier (toy_texts ! 0) = Inr [\<lparr>label = ''Positive'', score = Fin 0.9\<rparr>]
   \<and> toy_classifier (toy_texts ! 1) = Inr [\<lparr>label = ''negative'', score = Fin 0.7\<rparr>]
   \<and> toy_classifier (toy_texts ! 2) = Inr [\<lparr>label = ''neutral'', score = Fin 0.8\<rparr>]"
    by (simp add: toy_transformers_def toy_classifier_def toy_texts_def)
  from finbert_label_mapping [where build = toy_transformers and texts = toy_texts,
      THEN conjunct1, rule_format, OF run]
  obtain sp where sp: "toy_transformers ''sentiment-analysis'' ''ProsusAI/finbert'' = Inr sp"
    and each: "\<forall>i<length toy_texts. \<exists>r rs. sp (toy_texts ! i) = Inr (r # rs)
              \<and> svalues \<lparr>sindex = RangeIndex 0 3,
                    svalues = [Num (Fin 0.9), Num (Fin (- 0.7)), Num (Fin 0)]\<rparr> ! i =
                 Num (spec_signed_score (lower (label r)) (score r))"
    by blast
  from each [rule_format, of 0] each [rule_format, of 1] each [rule_format, of 2] len
  have "(\<exists>r rs. sp (toy_texts ! 0) = Inr (r # rs)
              \<and> Num (Fin 0.9) = Num (spec_signed_score (lower (label r)) (score r)))
        \<and> (\<exists>r rs. sp (toy_texts ! 1) = Inr (r # rs)
              \<and> Num (Fin (- 0.7)) = Num (spec_signed_score (lower (label r)) (score r)))
        \<and> (\<exists>r rs. sp (toy_texts ! 2) = Inr (r # rs)
              \<and> Num (Fin 0) = Num (spec_signed_score (lower (label r)) (score r)))"
    by simp
  with sp run cls show ?thesis by blast
qed

subsection \<open>Forward-fill alignment\<close>

lemma find_pos_Some: "find_pos xs t = Some i \<Longrightarrow> i < length xs \<and> xs ! i = t"
  by (induction xs arbitrary: i) (auto split: if_splits)

lemma find_pos_None: "find_pos xs t = None \<longleftrightarrow> t \<notin> set xs"
  by (induction xs) auto

lemma find_pos_nth: "distinct xs \<Longrightarrow> i < length xs \<Longrightarrow> find_pos xs (xs ! i) = Some i"
proof (induction xs arbitrary: i)
  case Nil
  then show ?case by simp
next
  case (Cons x xs)
  show ?case
  proof (cases i)
    case 0
    then show ?thesis by simp
  next
    case (Suc k)
    with Cons.prems have "k < length xs" "xs ! k \<in> set xs" "x \<notin> set xs" by auto
    with Cons Suc show ?thesis by auto
  qed
qed

lemma pad_one_nth: "distinct src \<Longrightarrow> i < length src \<Longrightarrow> pad_one src (src ! i) = Some i"
  by (simp add: pad_one_def find_pos_nth)

lemma pad_self: "distinct src \<Longrightarrow> map (pad_one src) src = map Some [0..<length src]"
  by (rule nth_equalityI) (simp_all add: pad_one_nth)

lemma take_fill_self: "take_fill vs (map Some [0..<length vs]) = vs"
  by (rule nth_equalityI) (simp_all add: take_fill_def)

lemma take_fill_set: "set (take_fill vs ixs) \<subseteq> insert (Num NaN) (set vs)"
  by (auto simp add: take_fill_def split: option.splits)

lemma takeWhile_less_nth:
  fixes xs :: "'a::linorder list"
  assumes "sorted xs" and "m < length xs"
  shows "xs ! m < x \<longleftrightarrow> m < length (takeWhile (\<lambda>y. y < x) xs)"
proof
  assume lt: "xs ! m < x"
  show "m < length (takeWhile (\<lambda>y. y < x) xs)"
  proof (rule ccontr)
    let ?k = "length (takeWhile (\<lambda>y. y < x) xs)"
    assume "\<not> m < ?k"
    then have km: "?k \<le> m" by simp
    with assms(2) have "?k < length xs" by simp
    then have "\<not> xs ! ?k < x" by (rule nth_length_takeWhile)
    moreover from assms km have "xs ! ?k \<le> xs ! m" by (simp add: sorted_nth_mono)
    ultimately show False using lt by simp
  qed
next
  assume m: "m < length (takeWhile (\<lambda>y. y < x) xs)"
  then have "takeWhile (\<lambda>y. y < x) xs ! m \<in> set (takeWhile (\<lambda>y. y < x) xs)"
    by (rule nth_mem)
  moreover from m have "takeWhile (\<lambda>y. y < x) xs ! m = xs ! m"
    by (rule takeWhile_nth)
  ultimately have "xs ! m \<in> set (takeWhile (\<lambda>y. y < x) xs)" by simp
  then show "xs ! m < x" by (rule set_takeWhileD [THEN conjunct2])
qed

lemma pad_one_last_known:
  fixes s :: "'a::linorder list"
  assumes "sorted s" and "distinct s"
  shows "case pad_one s x of
           None \<Rightarrow> (\<forall>y\<in>set s. x < y)
         | Some j \<Rightarrow> j < length s \<and> s ! j \<le> x \<and> (\<forall>k<length s. s ! k \<le> x \<longrightarrow> k \<le> j)"
proof (cases "find_pos s x")
  case (Some i)
  then have i: "i < length s" "s ! i = x" by (simp_all add: find_pos_Some)
  have "k \<le> i" if "k < length s" "s ! k \<le> x" for k
  proof (rule ccontr)
    assume "\<not> k \<le> i"
    then have "i < k" by simp
    from assms have "sorted_wrt (<) s" by (simp add: strict_sorted_iff)
    from sorted_wrt_nth_less [OF this \<open>i < k\<close> that(1)] i that(2) show False by simp
  qed
  with Some i show ?thesis by (simp add: pad_one_def)
next
  case None
  then have notin: "x \<notin> set s" by (simp add: find_pos_None)
  let ?k = "length (takeWhile (\<lambda>y. y < x) s)"
  have strict: "s ! m < x \<longleftrightarrow> s ! m \<le> x" if "m < length s" for m
    using notin that by (auto simp add: order_le_less)
  show ?thesis
  proof (cases "?k = 0")
    case True
    have "x < y" if "y \<in> set s" for y
    proof -
      from that obtain m where m: "m < length s" "s ! m = y" by (auto simp add: in_set_conv_nth)
      with takeWhile_less_nth [OF assms(1) m(1), of x] True have "\<not> y < x" by simp
      with that notin show ?thesis by (cases "x = y") auto
    qed
    with None True assms show ?thesis
      by (simp add: pad_one_def searchsorted_monotonic_def searchsorted_left_def)
  next
    case False
    have kle: "?k \<le> length s" by (rule length_takeWhile_le)
    with False have j: "?k - 1 < length s" by arith
    from False have "?k - 1 < ?k" by arith
    with takeWhile_less_nth [OF assms(1) j, of x] have "s ! (?k - 1) \<le> x" by simp
    moreover have "m \<le> ?k - 1" if "m < length s" "s ! m \<le> x" for m
      using takeWhile_less_nth [OF assms(1) that(1), of x] strict [OF that(1)] that(2) by simp
    ultimately show ?thesis
      using None False assms j
      by (simp add: pad_one_def searchsorted_monotonic_def searchsorted_left_def)
  qed
qed

lemma take_rows_set: "set (take_rows indexer vs) \<subseteq> insert (Num NaN) (set vs)"
  using take_fill_set by (auto simp add: take_rows_def split: option.splits)

lemma reindex_indexer_self: "reindex_indexer tgt tgt = Inr None"
  by (simp add: reindex_indexer_def)

lemma takeWhile_le_nth:
  fixes xs :: "'a::linorder list"
  assumes "sorted xs" and "m < length xs"
  shows "xs ! m \<le> x \<longleftrightarrow> m < length (takeWhile (\<lambda>y. y \<le> x) xs)"
proof
  assume le: "xs ! m \<le> x"
  show "m < length (takeWhile (\<lambda>y. y \<le> x) xs)"
  proof (rule ccontr)
    let ?k = "length (takeWhile (\<lambda>y. y \<le> x) xs)"
    assume "\<not> m < ?k"
    then have km: "?k \<le> m" by simp
    with assms(2) have "?k < length xs" by simp
    then have "\<not> xs ! ?k \<le> x" by (rule nth_length_takeWhile)
    moreover from assms km have "xs ! ?k \<le> xs ! m" by (simp add: sorted_nth_mono)
    ultimately show False using le by simp
  qed
next
  assume m: "m < length (takeWhile (\<lambda>y. y \<le> x) xs)"
  then have "takeWhile (\<lambda>y. y \<le> x) xs ! m \<in> set (takeWhile (\<lambda>y. y \<le> x) xs)"
    by (rule nth_mem)
  moreover from m have "takeWhile (\<lambda>y. y \<le> x) xs ! m = xs ! m"
    by (rule takeWhile_nth)
  ultimately have "xs ! m \<in> set (takeWhile (\<lambda>y. y \<le> x) xs)" by simp
  then show "xs ! m \<le> x" by (rule set_takeWhileD [THEN conjunct2])
qed

text \<open>
  On a source listed newest first (strictly decreasing timestamps, two rows or more), the
  fill takes for a target label the last row of the source, in the order of its rows,
  whose timestamp is not before the label: the earliest observation at or after it. A
  label after every timestamp of the source gets NaN.
\<close>

lemma pad_one_decreasing:
  fixes s :: "'a::linorder list"
  assumes "sorted (rev s)" and "distinct s" and "\<not> sorted s"
  shows "case pad_one s x of
           None \<Rightarrow> (\<forall>y\<in>set s. y < x)
         | Some j \<Rightarrow> j < length s \<and> x \<le> s ! j \<and> (\<forall>k<length s. x \<le> s ! k \<longrightarrow> k \<le> j)"
proof (cases "find_pos s x")
  case (Some i)
  then have i: "i < length s" "s ! i = x" by (simp_all add: find_pos_Some)
  have "k \<le> i" if "k < length s" "x \<le> s ! k" for k
  proof (rule ccontr)
    assume "\<not> k \<le> i"
    then have "i < k" by simp
    from assms have "sorted_wrt (<) (rev s)" by (simp add: strict_sorted_iff)
    then have "sorted_wrt (\<lambda>a b. b < a) s" by (simp add: sorted_wrt_rev)
    from sorted_wrt_nth_less [OF this \<open>i < k\<close> that(1)] i that(2) show False by simp
  qed
  with Some i show ?thesis by (simp add: pad_one_def)
next
  case None
  then have notin: "x \<notin> set s" by (simp add: find_pos_None)
  let ?n = "length s"
  let ?m = "length (takeWhile (\<lambda>y. y \<le> x) (rev s))"
  have m: "?m \<le> ?n" using length_takeWhile_le [of "\<lambda>y. y \<le> x" "rev s"] by simp
  have at: "s ! k \<le> x \<longleftrightarrow> ?n - 1 - k < ?m" if "k < ?n" for k
  proof -
    from that have "rev s ! (?n - 1 - k) = s ! k" by (simp add: rev_nth)
    moreover from that have "?n - 1 - k < length (rev s)" by simp
    ultimately show ?thesis using takeWhile_le_nth [OF assms(1), of "?n - 1 - k" x] by simp
  qed
  have pad: "pad_one s x = (if ?n - ?m = 0 then None else Some (?n - ?m - 1))"
    using None assms(3)
    by (simp add: pad_one_def searchsorted_monotonic_def searchsorted_right_def Let_def)
  show ?thesis
  proof (cases "?n - ?m = 0")
    case True
    have "y < x" if "y \<in> set s" for y
    proof -
      from that obtain k where k: "k < ?n" "s ! k = y" by (auto simp add: in_set_conv_nth)
      from True m k(1) have "?n - 1 - k < ?m" by arith
      with at [OF k(1)] k(2) have "y \<le> x" by simp
      with that notin show ?thesis by (cases "x = y") auto
    qed
    with pad True show ?thesis by simp
  next
    case False
    let ?j = "?n - ?m - 1"
    from False have j: "?j < ?n" by arith
    from False have "\<not> ?n - 1 - ?j < ?m" by arith
    with at [OF j] have "x \<le> s ! ?j" by simp
    moreover have "k \<le> ?j" if "k < ?n" "x \<le> s ! k" for k
    proof -
      from that notin have "\<not> s ! k \<le> x" by (auto simp add: in_set_conv_nth)
      with at [OF that(1)] have "\<not> ?n - 1 - k < ?m" by simp
      with that(1) show ?thesis by arith
    qed
    ultimately show ?thesis using pad False j by simp
  qed
qed

lemma reindex_ffill_decreasing_source:
  assumes "sorted (rev s)" and "distinct s" and "s \<noteq> t" and "t \<noteq> []"
  shows "reindex_ffill \<lparr>index = DatetimeIndex s f, cols = cs\<rparr> (DatetimeIndex t g) =
          Inr \<lparr>index = DatetimeIndex t g,
               cols = map (\<lambda>(name, vs). (name, take_fill vs (map (pad_one s) t))) cs\<rparr>"
  using assms
  by (simp add: reindex_ffill_def reindex_indexer_def pad_indexer_def take_rows_def
      distinct_map inj_on_def)

text \<open>A source whose timestamps are in no order, or repeat, cannot be aligned.\<close>

lemma reindex_ffill_unordered_source:
  assumes "\<not> sorted s" and "\<not> sorted (rev s)" and "distinct s" and "s \<noteq> t" and "t \<noteq> []"
  shows "reindex_ffill \<lparr>index = DatetimeIndex s f, cols = cs\<rparr> (DatetimeIndex t g) =
          Inl ValueError"
  using assms
  by (simp add: reindex_ffill_def reindex_indexer_def pad_indexer_def distinct_map inj_on_def)

lemma reindex_ffill_repeated_source:
  assumes "\<not> distinct s" and "s \<noteq> t"
  shows "reindex_ffill \<lparr>index = DatetimeIndex s f, cols = cs\<rparr> (DatetimeIndex t g) =
          Inl ValueError"
  using assms
  by (simp add: reindex_ffill_def reindex_indexer_def distinct_map inj_on_def)

text \<open>
  C5, as the claim states it, fails. A weather file that lists the newest observation
  first is loaded with its timestamps in that order (4, 2, 0), and so are its degree days.
  Aligned onto the price timestamps 1 and 5, the row for timestamp 1 holds the degree days
  observed at timestamp 2 (CDD 7.5), which lies after it, where the last known
  observation is that of timestamp 0 (HDD 8); and the row for timestamp 5 is NaN although
  three earlier observations are known.
\<close>

theorem ffill_newest_first_takes_later_value:
  "load_weather_data toy_parser toy_fs ''weather_newest_first.csv'' =
     Inr \<lparr>index = DatetimeIndex [4, 2, 0] None,
          cols = [(''temperature'', [Num (Fin 18), Num (Fin 25.5), Num (Fin 10)])]\<rparr>
   \<and> compute_degree_days toy_parser
        \<lparr>sindex = DatetimeIndex [4, 2, 0] None,
         svalues = [Num (Fin 18), Num (Fin 25.5), Num (Fin 10)]\<rparr>
        default_base_temperature =
     Inr \<lparr>index = DatetimeIndex [4, 2, 0] None,
          cols = [(''HDD'', [Num (Fin 0), Num (Fin 0), Num (Fin 8)]),
                  (''CDD'', [Num (Fin 0), Num (Fin 7.5), Num (Fin 0)])]\<rparr>
   \<and> reindex_ffill
        \<lparr>index = DatetimeIndex [4, 2, 0] None,
         cols = [(''HDD'', [Num (Fin 0), Num (Fin 0), Num (Fin 8)]),
                 (''CDD'', [Num (Fin 0), Num (Fin 7.5), Num (Fin 0)])]\<rparr>
        (DatetimeIndex [1, 5] None) =
     Inr \<lparr>index = DatetimeIndex [1, 5] None,
          cols = [(''HDD'', [Num (Fin 0), Num NaN]), (''CDD'', [Num (Fin 7.5), Num NaN])]\<rparr>
   \<and> pad_one [4, 2, 0 :: int] 1 = Some 1 \<and> [4, 2, 0 :: int] ! 1 = 2 \<and> (1 :: int) < 2
   \<and> pad_one [4, 2, 0 :: int] 5 = None"
  by code_simp

text \<open>
  C5, amended. Whenever a table (or a series) has been aligned onto a target index by
  forward-fill reindexing, aligning the result onto the same index again returns it
  unchanged. The aligned table has the target as its index and the columns of the source,
  and each of its cells is a cell of the same column of the source or NaN: no value is
  computed. On a source whose timestamps are strictly increasing, a target label takes the
  row of the last source label not after it, and NaN when every source label is after it.
  The fill alone, without the shortcut for equal labels, also maps a monotonic unique
  index onto itself row by row.
\<close>

theorem reindex_ffill_idempotent:
  "(reindex_ffill df tgt = Inr a \<longrightarrow>
      reindex_ffill a tgt = Inr a \<and> index a = tgt
      \<and> list_all2 (\<lambda>(name, vs) (name', vs'). name' = name \<and> set vs' \<subseteq> insert (Num NaN) (set vs))
           (cols df) (cols a))
   \<and> (reindex_ffill_series sr tgt = Inr b \<longrightarrow>
        reindex_ffill_series b tgt = Inr b \<and> sindex b = tgt
        \<and> set (svalues b) \<subseteq> insert (Num NaN) (set (svalues sr)))
   \<and> (sorted s \<and> distinct s \<and> s \<noteq> t \<and> t \<noteq> [] \<longrightarrow>
        reindex_ffill \<lparr>index = DatetimeIndex s f, cols = cs\<rparr> (DatetimeIndex t g) =
          Inr \<lparr>index = DatetimeIndex t g,
               cols = map (\<lambda>(name, vs). (name, take_fill vs (map (pad_one s) t))) cs\<rparr>)
   \<and> (sorted s \<and> distinct s \<longrightarrow>
        (case pad_one s x of
           None \<Rightarrow> (\<forall>y\<in>set s. x < y)
         | Some j \<Rightarrow> j < length s \<and> s ! j \<le> x \<and> (\<forall>k<length s. s ! k \<le> x \<longrightarrow> k \<le> j)))
   \<and> (distinct u \<and> (sorted u \<or> sorted (rev u)) \<longrightarrow>
        pad_indexer u u = Inr (map Some [0..<length u]))
   \<and> take_fill vs (map Some [0..<length vs]) = vs"
proof -
  have idem: "reindex_ffill df tgt = Inr a \<longrightarrow>
      reindex_ffill a tgt = Inr a \<and> index a = tgt
      \<and> list_all2 (\<lambda>(name, vs) (name', vs'). name' = name \<and> set vs' \<subseteq> insert (Num NaN) (set vs))
           (cols df) (cols a)"
  proof
    assume run: "reindex_ffill df tgt = Inr a"
    then obtain indexer where
      a: "a = \<lparr>index = tgt, cols = map (\<lambda>(name, vs). (name, take_rows indexer vs)) (cols df)\<rparr>"
      by (auto simp add: reindex_ffill_def and_then_Inr_iff)
    have keep: "map (\<lambda>(name, vs). (name, take_rows None vs)) cs = cs" for cs
      by (induction cs) (auto simp add: take_rows_def)
    have "reindex_ffill a tgt =
        Inr \<lparr>index = tgt, cols = map (\<lambda>(name, vs). (name, take_rows None vs)) (cols a)\<rparr>"
      using a by (simp only: reindex_ffill_def DataFrame.select_convs reindex_indexer_self
          and_then_Inr)
    then have again: "reindex_ffill a tgt = Inr a"
      using a by (simp only: keep DataFrame.select_convs)
    have "list_all2 (\<lambda>(name, vs) (name', vs'). name' = name \<and> set vs' \<subseteq> insert (Num NaN) (set vs))
        (cols df) (map (\<lambda>(name, vs). (name, take_rows indexer vs)) (cols df))"
      using take_rows_set by (auto simp add: list_all2_conv_all_nth split: prod.splits)
    with a again show "reindex_ffill a tgt = Inr a \<and> index a = tgt
      \<and> list_all2 (\<lambda>(name, vs) (name', vs'). name' = name \<and> set vs' \<subseteq> insert (Num NaN) (set vs))
           (cols df) (cols a)"
      by simp
  qed
  have ser: "reindex_ffill_series sr tgt = Inr b \<longrightarrow>
        reindex_ffill_series b tgt = Inr b \<and> sindex b = tgt
        \<and> set (svalues b) \<subseteq> insert (Num NaN) (set (svalues sr))"
  proof
    assume "reindex_ffill_series sr tgt = Inr b"
    then obtain indexer where
      b: "b = \<lparr>sindex = tgt, svalues = take_rows indexer (svalues sr)\<rparr>"
      by (auto simp add: reindex_ffill_series_def and_then_Inr_iff)
    with take_rows_set [of indexer "svalues sr"] show "reindex_ffill_series b tgt = Inr b \<and> sindex b = tgt
        \<and> set (svalues b) \<subseteq> insert (Num NaN) (set (svalues sr))"
      by (simp add: reindex_ffill_series_def reindex_indexer_self take_rows_def)
  qed
  have path: "sorted s \<and> distinct s \<and> s \<noteq> t \<and> t \<noteq> [] \<longrightarrow>
        reindex_ffill \<lparr>index = DatetimeIndex s f, cols = cs\<rparr> (DatetimeIndex t g) =
          Inr \<lparr>index = DatetimeIndex t g,
               cols = map (\<lambda>(name, vs). (name, take_fill vs (map (pad_one s) t))) cs\<rparr>"
    by (simp add: reindex_ffill_def reindex_indexer_def pad_indexer_def take_rows_def
        distinct_map inj_on_def)
  have known: "sorted s \<and> distinct s \<longrightarrow>
        (case pad_one s x of
           None \<Rightarrow> (\<forall>y\<in>set s. x < y)
         | Some j \<Rightarrow> j < length s \<and> s ! j \<le> x \<and> (\<forall>k<length s. s ! k \<le> x \<longrightarrow> k \<le> j))"
    using pad_one_last_known [of s x] by blast
  have self: "distinct u \<and> (sorted u \<or> sorted (rev u)) \<longrightarrow>
        pad_indexer u u = Inr (map Some [0..<length u])"
    by (auto simp add: pad_indexer_def pad_self)
  have tf: "take_fill vs (map Some [0..<length vs]) = vs"
    by (rule take_fill_self)
  from idem ser path known self tf show ?thesis by (intro conjI)
qed

theorem reindex_ffill_idempotent_witness:
  "reindex_ffill toy_degree_days toy_target = Inr toy_aligned
   \<and> reindex_ffill toy_aligned toy_target = Inr toy_aligned
   \<and> reindex_ffill_series \<lparr>sindex = DatetimeIndex [0, 2, 4] None,
          svalues = [Num (Fin 0.4), Num NaN, Num (Fin 0.1)]\<rparr> toy_target =
        Inr \<lparr>sindex = toy_target, svalues = [Num NaN, Num (Fin 0.4), Num NaN, Num (Fin 0.1)]\<rparr>
   \<and> reindex_ffill_series
          \<lparr>sindex = toy_target, svalues = [Num NaN, Num (Fin 0.4), Num NaN, Num (Fin 0.1)]\<rparr>
          toy_target =
        Inr \<lparr>sindex = toy_target, svalues = [Num NaN, Num (Fin 0.4), Num NaN, Num (Fin 0.1)]\<rparr>
   \<and> sorted [0, 2, 4 :: int] \<and> distinct [0, 2, 4 :: int]
   \<and> [0, 2, 4 :: int] \<noteq> [- 1, 1, 2, 5] \<and> [- 1, 1, 2, 5 :: int] \<noteq> []
   \<and> pad_one [0, 2, 4 :: int] 1 = Some 0 \<and> [0, 2, 4 :: int] ! 0 \<le> 1
   \<and> pad_one [0, 2, 4 :: int] (- 1) = None
   \<and> pad_indexer [- 1, 1, 2, 5 :: int] [- 1, 1, 2, 5] = Inr [Some 0, Some 1, Some 2, Some 3]"
proof -
  have run: "reindex_ffill toy_degree_days toy_target = Inr toy_aligned"
    by code_simp
  have srun: "reindex_ffill_series \<lparr>sindex = DatetimeIndex [0, 2, 4] None,
          svalues = [Num (Fin 0.4), Num NaN, Num (Fin 0.1)]\<rparr> toy_target =
        Inr \<lparr>sindex = toy_target, svalues = [Num NaN, Num (Fin 0.4), Num NaN, Num (Fin 0.1)]\<rparr>"
    by code_simp
  have hyp: "sorted [0, 2, 4 :: int] \<and> distinct [0, 2, 4 :: int]
      \<and> [0, 2, 4 :: int] \<noteq> [- 1, 1, 2, 5] \<and> [- 1, 1, 2, 5 :: int] \<noteq> []"
    by simp
  have hyp2: "distinct [- 1, 1, 2, 5 :: int]
      \<and> (sorted [- 1, 1, 2, 5 :: int] \<or> sorted (rev [- 1, 1, 2, 5 :: int]))"
    by simp
  have pads: "pad_one [0, 2, 4 :: int] 1 = Some 0 \<and> pad_one [0, 2, 4 :: int] (- 1) = None"
    by code_simp
  note inst = reindex_ffill_idempotent [where df = toy_degree_days and tgt = toy_target
      and a = toy_aligned and s = "[0, 2, 4]" and t = "[- 1, 1, 2, 5]" and x = 1
      and u = "[- 1, 1, 2, 5 :: int]"
      and sr = "\<lparr>sindex = DatetimeIndex [0, 2, 4] None,
                 svalues = [Num (Fin 0.4), Num NaN, Num (Fin 0.1)]\<rparr>"
      and b = "\<lparr>sindex = toy_target, svalues = [Num NaN, Num (Fin 0.4), Num NaN, Num (Fin 0.1)]\<rparr>"]
  from inst run have again: "reindex_ffill toy_aligned toy_target = Inr toy_aligned"
    by blast
  from inst srun have sagain: "reindex_ffill_series
          \<lparr>sindex = toy_target, svalues = [Num NaN, Num (Fin 0.4), Num NaN, Num (Fin 0.1)]\<rparr>
          toy_target =
        Inr \<lparr>sindex = toy_target, svalues = [Num NaN, Num (Fin 0.4), Num NaN, Num (Fin 0.1)]\<rparr>"
    by blast
  from inst hyp pads have le: "[0, 2, 4 :: int] ! 0 \<le> 1"
    by simp
  from inst hyp2 have self:
    "pad_indexer [- 1, 1, 2, 5 :: int] [- 1, 1, 2, 5] = Inr (map Some [0..<length [- 1, 1, 2, 5 :: int]])"
    by blast
  have "map Some [0..<length [- 1, 1, 2, 5 :: int]] = [Some 0, Some 1, Some 2, Some 3]"
    by code_simp
  with self have self': "pad_indexer [- 1, 1, 2, 5 :: int] [- 1, 1, 2, 5] = Inr [Some 0, Some 1, Some 2, Some 3]"
    by simp
  from run again srun sagain hyp pads le self' show ?thesis by (intro conjI) simp_all
qed

subsection \<open>Loaders\<close>

lemma is_num_coerce_cell: "is_num (coerce_cell p c)"
  by (cases c) simp_all

lemma to_numeric_cells_kind:
  "list_all is_num (to_numeric_cells p vs) \<or> list_all is_bool (to_numeric_cells p vs)"
  by (simp add: to_numeric_cells_def list_all_iff is_num_coerce_cell)

lemma to_numeric_read_numbers:
  assumes "numeric_column p raw"
  shows "to_numeric_cells p (read_column p raw) = map (read_number p) raw"
proof -
  have "map (coerce_cell p) (map (read_number p) raw) = map (read_number p) raw"
    by (simp add: read_number_def)
  with assms show ?thesis
    by (simp add: read_column_def to_numeric_cells_def)
qed

lemma to_numeric_read_text:
  assumes "\<not> numeric_column p raw" and "\<not> boolean_column p raw"
  shows "to_numeric_cells p (read_column p raw) =
         map (\<lambda>s. Num (if na_text p s then NaN
                        else case to_numeric_text p s of Some x \<Rightarrow> x | None \<Rightarrow> NaN)) raw"
proof -
  from assms have r: "read_column p raw = map (read_text p) raw"
    by (simp add: read_column_def)
  from assms(1) have "raw \<noteq> []" by (auto simp add: numeric_column_def)
  then have "\<not> list_all is_bool (map (read_text p) raw)"
    by (cases raw) (simp_all add: read_text_def)
  moreover have "coerce_cell p (read_text p s) =
      Num (if na_text p s then NaN
           else case to_numeric_text p s of Some x \<Rightarrow> x | None \<Rightarrow> NaN)" for s
    by (simp add: read_text_def)
  ultimately show ?thesis using r by (simp add: to_numeric_cells_def)
qed

lemma to_numeric_read_is_num:
  assumes "\<not> boolean_column p raw"
  shows "list_all is_num (to_numeric_cells p (read_column p raw))"
proof (cases "numeric_column p raw")
  case True
  then show ?thesis
    by (simp add: to_numeric_read_numbers read_number_def list_all_iff)
next
  case False
  with assms show ?thesis
    by (simp add: to_numeric_read_text list_all_iff)
qed

lemma read_bool_no_missing:
  assumes "boolean_column p raw" and "\<not> list_ex (na_text p) raw"
  shows "list_all is_bool (map (read_bool p) raw)"
  using assms
  by (auto simp add: boolean_column_def list_all_iff list_ex_iff read_bool_def)

lemma to_numeric_read_bool:
  assumes "boolean_column p raw" and "\<not> list_ex (na_text p) raw"
  shows "to_numeric_cells p (read_column p raw) = map (read_bool p) raw"
  using assms read_bool_no_missing [OF assms]
  by (simp add: read_column_def boolean_column_def to_numeric_cells_def)

lemma to_numeric_read_bool_missing:
  assumes "boolean_column p raw" and "list_ex (na_text p) raw"
  shows "to_numeric_cells p (read_column p raw) =
         map (\<lambda>s. Num (if na_text p s then NaN
                        else case bool_text p s of Some b \<Rightarrow> bool_to_float b | None \<Rightarrow> NaN)) raw"
proof -
  from assms(2) obtain s where s: "s \<in> set raw" "na_text p s" by (auto simp add: list_ex_iff)
  then have "read_bool p s = Num NaN" by (simp add: read_bool_def)
  with s(1) have "Num NaN \<in> set (map (read_bool p) raw)" by force
  moreover have "\<not> is_bool (Num NaN)" by simp
  ultimately have "\<not> list_all is_bool (map (read_bool p) raw)"
    unfolding list_all_iff by blast
  moreover have "coerce_cell p (read_bool p s) =
      Num (if na_text p s then NaN
           else case bool_text p s of Some b \<Rightarrow> bool_to_float b | None \<Rightarrow> NaN)" for s
    by (simp add: read_bool_def split: option.splits)
  ultimately show ?thesis using assms(1)
    by (simp add: read_column_def boolean_column_def to_numeric_cells_def)
qed

lemma map_fst_relabel:
  "map fst (map (\<lambda>(name, v). (name, g name v)) cs) = map fst cs"
  by (induction cs) auto

lemma map_fst_relabel_if:
  "map fst (map (\<lambda>(name, v). if c name then (name, g v) else (name, v)) cs) = map fst cs"
  by (induction cs) auto

lemma setitem_own_column:
  assumes "distinct (map fst cs)" and "map_of cs col = Some vs"
  shows "map (\<lambda>(name, v). if name = col then (name, g vs) else (name, v)) cs =
         map (\<lambda>(name, v). if name = col then (name, g v) else (name, v)) cs"
proof (rule map_cong [OF refl])
  fix c assume c: "c \<in> set cs"
  obtain name v where nv: "c = (name, v)" by (cases c)
  with c assms have "name = col \<Longrightarrow> v = vs" by auto
  with nv show "(case c of (name, v) \<Rightarrow> if name = col then (name, g vs) else (name, v)) =
                (case c of (name, v) \<Rightarrow> if name = col then (name, g v) else (name, v))"
    by auto
qed

lemma coerce_columns_distinct:
  "distinct (map fst (cols df)) \<Longrightarrow> distinct ns \<Longrightarrow> set ns \<subseteq> set (map fst (cols df)) \<Longrightarrow>
     coerce_columns p ns df =
       Inr (df\<lparr>cols := map (\<lambda>(name, v). if name \<in> set ns then (name, to_numeric_cells p v)
                                      else (name, v)) (cols df)\<rparr>)"
proof (induction ns arbitrary: df)
  case Nil
  then show ?case by (simp add: case_prod_unfold)
next
  case (Cons col rest)
  from Cons.prems obtain vs where vs: "map_of (cols df) col = Some vs"
    by (cases "map_of (cols df) col") (auto simp add: map_of_eq_None_iff)
  let ?df = "df\<lparr>cols := map (\<lambda>(name, v). if name = col then (name, to_numeric_cells p v)
                                      else (name, v)) (cols df)\<rparr>"
  from Cons.prems have "setitem df col (to_numeric_coerce p \<lparr>sindex = index df, svalues = vs\<rparr>) =
      df\<lparr>cols := map (\<lambda>(name, v). if name = col then (name, to_numeric_cells p vs)
                                      else (name, v)) (cols df)\<rparr>"
    by (simp add: setitem_def to_numeric_coerce_def columns_def cong: if_cong)
  also from Cons.prems vs have "map (\<lambda>(name, v). if name = col then (name, to_numeric_cells p vs)
                                      else (name, v)) (cols df) =
      map (\<lambda>(name, v). if name = col then (name, to_numeric_cells p v)
                                      else (name, v)) (cols df)"
    by (intro setitem_own_column) simp_all
  finally have step:
    "setitem df col (to_numeric_coerce p \<lparr>sindex = index df, svalues = vs\<rparr>) = ?df" .
  have names: "map fst (cols ?df) = map fst (cols df)"
    by (auto simp add: split_beta)
  from Cons.prems have d: "distinct (map fst (cols ?df))" "distinct rest"
      "set rest \<subseteq> set (map fst (cols ?df))"
    by (simp_all only: names) simp_all
  have "coerce_columns p rest ?df =
       Inr (?df\<lparr>cols := map (\<lambda>(name, v). if name \<in> set rest then (name, to_numeric_cells p v)
                                      else (name, v)) (cols ?df)\<rparr>)"
    by (rule Cons.IH [OF d])
  moreover from Cons.prems have "col \<notin> set rest" by simp
  then have "map (\<lambda>(name, v). if name \<in> set rest then (name, to_numeric_cells p v)
                                      else (name, v)) (cols ?df) =
      map (\<lambda>(name, v). if name \<in> set (col # rest) then (name, to_numeric_cells p v)
                                      else (name, v)) (cols df)"
    by (auto simp add: case_prod_unfold)
  ultimately show ?case using vs step by (simp add: getitem_def)
qed

lemma load_price_data_file:
  assumes "fs path = Some f" and "distinct (map fst (fcols f))"
  shows "load_price_data p fs path =
        Inr \<lparr>index = DatetimeIndex (stamps f) None,
             cols = map (\<lambda>(name, raw). (name, to_numeric_cells p (read_column p raw)))
                    (fcols f)\<rparr>"
proof -
  let ?df = "\<lparr>index = DatetimeIndex (stamps f) None,
               cols = map (\<lambda>(name, raw). (name, read_column p raw)) (fcols f)\<rparr>"
  have names: "map fst (cols ?df) = map fst (fcols f)"
    by (auto simp add: split_beta)
  from assms(2) have d: "distinct (map fst (cols ?df))"
    by (simp only: names)
  have "coerce_columns p (map fst (cols ?df)) ?df =
       Inr (?df\<lparr>cols := map (\<lambda>(name, v). if name \<in> set (map fst (cols ?df))
                          then (name, to_numeric_cells p v) else (name, v)) (cols ?df)\<rparr>)"
    by (rule coerce_columns_distinct [OF d d subset_refl])
  moreover have "map (\<lambda>(name, v). if name \<in> set (map fst (cols ?df))
                          then (name, to_numeric_cells p v) else (name, v)) (cols ?df) =
      map (\<lambda>(name, raw). (name, to_numeric_cells p (read_column p raw))) (fcols f)"
    by (auto simp add: case_prod_unfold image_iff)
  ultimately show ?thesis using assms
    by (simp add: load_price_data_def read_csv_def columns_def)
qed

lemma load_weather_data_file:
  assumes "fs path = Some f" and "distinct (map fst (fcols f))"
    and "''temperature'' \<in> set (map fst (fcols f))"
  shows "load_weather_data p fs path =
        Inr \<lparr>index = DatetimeIndex (stamps f) None,
             cols = map (\<lambda>(name, raw).
                      (name, if name = ''temperature''
                             then to_numeric_cells p (read_column p raw)
                             else read_column p raw))
                    (fcols f)\<rparr>"
proof -
  let ?cs = "map (\<lambda>(name, raw). (name, read_column p raw)) (fcols f)"
  have names: "map fst ?cs = map fst (fcols f)"
    by (auto simp add: split_beta)
  from assms(2) have d: "distinct (map fst ?cs)" by (simp only: names)
  from assms(3) obtain vs where vs: "map_of ?cs ''temperature'' = Some vs"
    by (cases "map_of ?cs ''temperature''") (auto simp add: map_of_eq_None_iff image_iff)
  have "map (\<lambda>(name, v). if name = ''temperature'' then (name, to_numeric_cells p vs)
                           else (name, v)) ?cs =
        map (\<lambda>(name, v). if name = ''temperature'' then (name, to_numeric_cells p v)
                           else (name, v)) ?cs"
    by (rule setitem_own_column [OF d vs])
  also have "\<dots> = map (\<lambda>(name, raw).
                      (name, if name = ''temperature''
                             then to_numeric_cells p (read_column p raw)
                             else read_column p raw))
                    (fcols f)"
    by (auto simp add: split_beta)
  finally have cs: "map (\<lambda>(name, v). if name = ''temperature'' then (name, to_numeric_cells p vs)
                           else (name, v)) ?cs =
      map (\<lambda>(name, raw).
                      (name, if name = ''temperature''
                             then to_numeric_cells p (read_column p raw)
                             else read_column p raw))
                    (fcols f)" .
  let ?df = "\<lparr>index = DatetimeIndex (stamps f) None, cols = ?cs\<rparr>"
  from assms(3) have "''temperature'' \<in> set (map fst ?cs)" by (simp only: names)
  then have mem: "''temperature'' \<in> set (columns ?df)"
    by (simp only: columns_def DataFrame.select_convs)
  from assms(1) have rd: "read_csv p fs path = Inr ?df"
    by (simp add: read_csv_def)
  from vs have gi: "getitem ?df ''temperature'' =
      Inr \<lparr>sindex = DatetimeIndex (stamps f) None, svalues = vs\<rparr>"
    by (simp add: getitem_def)
  have si: "setitem ?df ''temperature''
        (to_numeric_coerce p \<lparr>sindex = DatetimeIndex (stamps f) None, svalues = vs\<rparr>) =
      \<lparr>index = DatetimeIndex (stamps f) None,
       cols = map (\<lambda>(name, v). if name = ''temperature'' then (name, to_numeric_cells p vs)
                           else (name, v)) ?cs\<rparr>"
    by (simp add: setitem_def mem to_numeric_coerce_def cong: if_cong)
  show ?thesis
    by (simp only: load_weather_data_def rd gi si cs and_then_Inr)
qed

lemma load_weather_data_no_temperature:
  assumes "fs path = Some f" and "''temperature'' \<notin> set (map fst (fcols f))"
  shows "load_weather_data p fs path = Inl KeyError"
proof -
  let ?cs = "map (\<lambda>(name, raw). (name, read_column p raw)) (fcols f)"
  have names: "map fst ?cs = map fst (fcols f)"
    by (auto simp add: split_beta)
  from assms(2) have "''temperature'' \<notin> set (map fst ?cs)" unfolding names .
  then have "map_of ?cs ''temperature'' = None"
    by (simp only: map_of_eq_None_iff set_map simp_thms)
  with assms(1) show ?thesis
    by (simp add: load_weather_data_def read_csv_def getitem_def)
qed

text \<open>The definitions the reading of a concrete column unfolds.\<close>

lemma ex_bool_simps: "(\<exists>y::bool. y) = True" "(\<exists>y::bool. \<not> y) = True"
  by auto

lemmas read_eval =
  read_column_def numeric_column_def boolean_column_def read_number_def read_bool_def
  read_text_def to_numeric_cells_def bool_to_float_def toy_parser_def toy_numbers_def
  ex_bool_simps

text \<open>
  C6, as the claim states it, fails. A price file whose rows are out of order is loaded
  with its index in the order of the rows, which is not strictly increasing; and the
  weather loader coerces the temperature column only, so another column with a malformed
  cell is returned as text.
\<close>

theorem loaders_index_unsorted_and_text_kept:
  "load_price_data toy_parser toy_fs ''prices.csv'' =
     Inr \<lparr>index = DatetimeIndex [2, 1] None,
          cols = [(''day_ahead'', [Num (Fin 30), Num (Fin 31.5)])]\<rparr>
   \<and> \<not> spec_index_strictly_increasing (DatetimeIndex [2, 1] None)
   \<and> load_weather_data toy_parser toy_fs ''weather.csv'' =
     Inr \<lparr>index = DatetimeIndex [0, 1] None,
          cols = [(''temperature'', [Num (Fin 25.5), Num NaN]),
                  (''humidity'', [Str ''0.4'', Str ''high''])]\<rparr>
   \<and> \<not> spec_all_numeric
         \<lparr>index = DatetimeIndex [0, 1] None,
          cols = [(''temperature'', [Num (Fin 25.5), Num NaN]),
                  (''humidity'', [Str ''0.4'', Str ''high''])]\<rparr>"
  by code_simp

text \<open>
  C6, amended. For an existing file (with distinct column names, as \<^verbatim>\<open>read_csv\<close> makes
  them), \<open>load_price_data\<close> never raises and returns every value column as \<^verbatim>\<open>to_numeric\<close>
  leaves the column read from the file: a column of floats or a column of booleans, and
  of floats only when no column of the file holds booleans. In a column of numbers and
  missing cells, each cell is its number, NaN when missing. In a column with other text
  that is not a column of booleans, each cell is the number its text denotes, and NaN when
  the cell is missing or its text denotes no number. A column whose cells all read as
  booleans is returned as booleans; when some of its cells are missing, as 1.0, 0.0 and
  NaN. \<open>load_weather_data\<close>
  does this for the column temperature alone, leaves the other columns as they were
  read, and raises KeyError when there is no such column. Both keep the timestamps in the
  order of the file's rows: the index is strictly increasing exactly when the file's
  timestamps are. A missing file raises.
\<close>

theorem loaders_coerce_keep_file_order:
  "(fs path = Some f \<and> distinct (map fst (fcols f)) \<longrightarrow>
      (\<exists>df. load_price_data p fs path = Inr df
         \<and> index df = DatetimeIndex (stamps f) None
         \<and> cols df = map (\<lambda>(name, raw). (name, to_numeric_cells p (read_column p raw)))
                     (fcols f)
         \<and> list_all (\<lambda>(name, vs). list_all is_num vs \<or> list_all is_bool vs) (cols df)
         \<and> (list_all (\<lambda>(name, raw). \<not> boolean_column p raw) (fcols f) \<longrightarrow>
              spec_all_numeric df)
         \<and> spec_index_strictly_increasing (index df) = sorted_wrt (<) (stamps f)))
   \<and> (numeric_column p raw \<longrightarrow>
        to_numeric_cells p (read_column p raw) = map (read_number p) raw)
   \<and> (\<not> numeric_column p raw \<and> \<not> boolean_column p raw \<longrightarrow>
        to_numeric_cells p (read_column p raw) =
          map (\<lambda>s. Num (if na_text p s then NaN
                         else case to_numeric_text p s of Some x \<Rightarrow> x | None \<Rightarrow> NaN))
            raw)
   \<and> (boolean_column p raw \<and> \<not> list_ex (na_text p) raw \<longrightarrow>
        to_numeric_cells p (read_column p raw) = map (read_bool p) raw
        \<and> list_all is_bool (map (read_bool p) raw))
   \<and> (boolean_column p raw \<and> list_ex (na_text p) raw \<longrightarrow>
        to_numeric_cells p (read_column p raw) =
          map (\<lambda>s. Num (if na_text p s then NaN
                         else case bool_text p s of Some b \<Rightarrow> bool_to_float b | None \<Rightarrow> NaN))
            raw)
   \<and> (fs path = Some f \<and> distinct (map fst (fcols f))
        \<and> ''temperature'' \<in> set (map fst (fcols f)) \<longrightarrow>
      (\<exists>df. load_weather_data p fs path = Inr df
         \<and> index df = DatetimeIndex (stamps f) None
         \<and> cols df = map (\<lambda>(name, raw).
                       (name, if name = ''temperature''
                              then to_numeric_cells p (read_column p raw)
                              else read_column p raw))
                     (fcols f)
         \<and> spec_index_strictly_increasing (index df) = sorted_wrt (<) (stamps f)))
   \<and> (fs path = Some f \<and> ''temperature'' \<notin> set (map fst (fcols f)) \<longrightarrow>
        load_weather_data p fs path = Inl KeyError)
   \<and> (fs path = None \<longrightarrow>
        load_price_data p fs path = Inl FileNotFoundError
        \<and> load_weather_data p fs path = Inl FileNotFoundError)"
proof -
  have price: "fs path = Some f \<and> distinct (map fst (fcols f)) \<longrightarrow>
      (\<exists>df. load_price_data p fs path = Inr df
         \<and> index df = DatetimeIndex (stamps f) None
         \<and> cols df = map (\<lambda>(name, raw). (name, to_numeric_cells p (read_column p raw)))
                     (fcols f)
         \<and> list_all (\<lambda>(name, vs). list_all is_num vs \<or> list_all is_bool vs) (cols df)
         \<and> (list_all (\<lambda>(name, raw). \<not> boolean_column p raw) (fcols f) \<longrightarrow>
              spec_all_numeric df)
         \<and> spec_index_strictly_increasing (index df) = sorted_wrt (<) (stamps f))"
  proof
    assume a: "fs path = Some f \<and> distinct (map fst (fcols f))"
    let ?df = "\<lparr>index = DatetimeIndex (stamps f) None,
             cols = map (\<lambda>(name, raw). (name, to_numeric_cells p (read_column p raw)))
                    (fcols f)\<rparr>"
    have kind: "list_all (\<lambda>(name, vs). list_all is_num vs \<or> list_all is_bool vs) (cols ?df)"
      using to_numeric_cells_kind [of p] by (auto simp add: list_all_iff)
    have num: "spec_all_numeric ?df"
      if "list_all (\<lambda>(name, raw). \<not> boolean_column p raw) (fcols f)"
    proof -
      have "list_all is_num (to_numeric_cells p (read_column p raw))"
        if "(name, raw) \<in> set (fcols f)" for name raw
      proof -
        from that \<open>list_all (\<lambda>(name, raw). \<not> boolean_column p raw) (fcols f)\<close>
        have "\<not> boolean_column p raw" by (auto simp add: list_all_iff)
        then show ?thesis by (rule to_numeric_read_is_num)
      qed
      then show ?thesis by (auto simp add: spec_all_numeric_def list_all_iff)
    qed
    from load_price_data_file [of fs path f p] a kind num
    show "\<exists>df. load_price_data p fs path = Inr df
         \<and> index df = DatetimeIndex (stamps f) None
         \<and> cols df = map (\<lambda>(name, raw). (name, to_numeric_cells p (read_column p raw)))
                     (fcols f)
         \<and> list_all (\<lambda>(name, vs). list_all is_num vs \<or> list_all is_bool vs) (cols df)
         \<and> (list_all (\<lambda>(name, raw). \<not> boolean_column p raw) (fcols f) \<longrightarrow>
              spec_all_numeric df)
         \<and> spec_index_strictly_increasing (index df) = sorted_wrt (<) (stamps f)"
      by simp
  qed
  have numbers: "numeric_column p raw \<longrightarrow>
        to_numeric_cells p (read_column p raw) = map (read_number p) raw"
    using to_numeric_read_numbers [of p raw] by blast
  have plain: "\<not> numeric_column p raw \<and> \<not> boolean_column p raw \<longrightarrow>
        to_numeric_cells p (read_column p raw) =
          map (\<lambda>s. Num (if na_text p s then NaN
                         else case to_numeric_text p s of Some x \<Rightarrow> x | None \<Rightarrow> NaN))
            raw"
    using to_numeric_read_text [of p raw] by blast
  have flags: "boolean_column p raw \<and> \<not> list_ex (na_text p) raw \<longrightarrow>
        to_numeric_cells p (read_column p raw) = map (read_bool p) raw
        \<and> list_all is_bool (map (read_bool p) raw)"
    using to_numeric_read_bool [of p raw] read_bool_no_missing [of p raw] by blast
  have flags_missing: "boolean_column p raw \<and> list_ex (na_text p) raw \<longrightarrow>
        to_numeric_cells p (read_column p raw) =
          map (\<lambda>s. Num (if na_text p s then NaN
                         else case bool_text p s of Some b \<Rightarrow> bool_to_float b | None \<Rightarrow> NaN))
            raw"
    using to_numeric_read_bool_missing [of p raw] by blast
  have weather: "fs path = Some f \<and> distinct (map fst (fcols f))
        \<and> ''temperature'' \<in> set (map fst (fcols f)) \<longrightarrow>
      (\<exists>df. load_weather_data p fs path = Inr df
         \<and> index df = DatetimeIndex (stamps f) None
         \<and> cols df = map (\<lambda>(name, raw).
                       (name, if name = ''temperature''
                              then to_numeric_cells p (read_column p raw)
                              else read_column p raw))
                     (fcols f)
         \<and> spec_index_strictly_increasing (index df) = sorted_wrt (<) (stamps f))"
    using load_weather_data_file [of fs path f p] by simp
  have nokey: "fs path = Some f \<and> ''temperature'' \<notin> set (map fst (fcols f)) \<longrightarrow>
        load_weather_data p fs path = Inl KeyError"
    using load_weather_data_no_temperature [of fs path f p] by blast
  have nofile: "fs path = None \<longrightarrow>
        load_price_data p fs path = Inl FileNotFoundError
        \<and> load_weather_data p fs path = Inl FileNotFoundError"
    by (simp add: load_price_data_def load_weather_data_def read_csv_def)
  from price numbers plain flags flags_missing weather nokey nofile show ?thesis
    by (intro conjI)
qed

theorem loaders_coerce_keep_file_order_witness:
  "toy_fs ''prices2.csv'' = Some price_file_pair
   \<and> distinct (map fst (fcols price_file_pair))
   \<and> load_price_data toy_parser toy_fs ''prices2.csv'' =
       Inr \<lparr>index = DatetimeIndex [0, 1, 2] None,
            cols = [(''day_ahead'', [Num (Fin 30), Num (Fin 31.5), Num NaN]),
                    (''real_time'', [Num (Fin 31.5), Num NaN, Num (Fin 30)])]\<rparr>
   \<and> toy_fs ''flags.csv'' = Some price_file_flags
   \<and> distinct (map fst (fcols price_file_flags))
   \<and> load_price_data toy_parser toy_fs ''flags.csv'' =
       Inr \<lparr>index = DatetimeIndex [0, 1] None,
            cols = [(''day_ahead'', [Num (Fin 30), Num (Fin 31.5)]),
                    (''peak'', [Bool True, Bool False]),
                    (''holiday'', [Num (Fin 1), Num NaN])]\<rparr>
   \<and> numeric_column toy_parser [''31.5'', [], ''30.0'']
   \<and> to_numeric_cells toy_parser (read_column toy_parser [''31.5'', [], ''30.0'']) =
       [Num (Fin 31.5), Num NaN, Num (Fin 30)]
   \<and> \<not> numeric_column toy_parser [''30.0'', ''31.5'', ''oops'']
   \<and> \<not> boolean_column toy_parser [''30.0'', ''31.5'', ''oops'']
   \<and> to_numeric_cells toy_parser (read_column toy_parser [''30.0'', ''31.5'', ''oops'']) =
       [Num (Fin 30), Num (Fin 31.5), Num NaN]
   \<and> boolean_column toy_parser [''True'', ''False'']
   \<and> \<not> list_ex (na_text toy_parser) [''True'', ''False'']
   \<and> to_numeric_cells toy_parser (read_column toy_parser [''True'', ''False'']) =
       [Bool True, Bool False]
   \<and> boolean_column toy_parser [''True'', []]
   \<and> list_ex (na_text toy_parser) [''True'', []]
   \<and> to_numeric_cells toy_parser (read_column toy_parser [''True'', []]) =
       [Num (Fin 1), Num NaN]
   \<and> toy_fs ''weather.csv'' = Some weather_file
   \<and> distinct (map fst (fcols weather_file))
   \<and> ''temperature'' \<in> set (map fst (fcols weather_file))
   \<and> load_weather_data toy_parser toy_fs ''weather.csv'' =
       Inr \<lparr>index = DatetimeIndex [0, 1] None,
            cols = [(''temperature'', [Num (Fin 25.5), Num NaN]),
                    (''humidity'', [Str ''0.4'', Str ''high''])]\<rparr>
   \<and> toy_fs ''prices.csv'' = Some price_file_unsorted
   \<and> ''temperature'' \<notin> set (map fst (fcols price_file_unsorted))
   \<and> load_weather_data toy_parser toy_fs ''prices.csv'' = Inl KeyError
   \<and> toy_fs ''missing.csv'' = None
   \<and> load_price_data toy_parser toy_fs ''missing.csv'' = Inl FileNotFoundError"
proof -
  have h1: "toy_fs ''prices2.csv'' = Some price_file_pair \<and> distinct (map fst (fcols price_file_pair))"
    by (simp add: toy_fs_def price_file_pair_def)
  have h1': "toy_fs ''flags.csv'' = Some price_file_flags \<and> distinct (map fst (fcols price_file_flags))"
    by (simp add: toy_fs_def price_file_flags_def)
  have h2: "toy_fs ''weather.csv'' = Some weather_file \<and> distinct (map fst (fcols weather_file))
      \<and> ''temperature'' \<in> set (map fst (fcols weather_file))"
    by (simp add: toy_fs_def weather_file_def)
  have h3: "toy_fs ''prices.csv'' = Some price_file_unsorted
      \<and> ''temperature'' \<notin> set (map fst (fcols price_file_unsorted))"
    by (simp add: toy_fs_def price_file_unsorted_def)
  have h4: "toy_fs ''missing.csv'' = None"
    by (simp add: toy_fs_def)
  have k0: "numeric_column toy_parser [''31.5'', [], ''30.0'']"
    by code_simp
  have k1: "\<not> numeric_column toy_parser [''30.0'', ''31.5'', ''oops'']
      \<and> \<not> boolean_column toy_parser [''30.0'', ''31.5'', ''oops'']"
    by code_simp
  have k2: "boolean_column toy_parser [''True'', ''False'']
      \<and> \<not> list_ex (na_text toy_parser) [''True'', ''False'']"
    by code_simp
  have k3: "boolean_column toy_parser [''True'', []] \<and> list_ex (na_text toy_parser) [''True'', []]"
    by code_simp
  from loaders_coerce_keep_file_order [where fs = toy_fs and path = "''prices2.csv''"
      and f = price_file_pair and p = toy_parser] h1
  obtain df where "load_price_data toy_parser toy_fs ''prices2.csv'' = Inr df"
    and "index df = DatetimeIndex (stamps price_file_pair) None"
    and "cols df = map (\<lambda>(name, raw). (name, to_numeric_cells toy_parser (read_column toy_parser raw)))
                     (fcols price_file_pair)"
    by blast
  then have c1: "load_price_data toy_parser toy_fs ''prices2.csv'' =
       Inr \<lparr>index = DatetimeIndex [0, 1, 2] None,
            cols = [(''day_ahead'', [Num (Fin 30), Num (Fin 31.5), Num NaN]),
                    (''real_time'', [Num (Fin 31.5), Num NaN, Num (Fin 30)])]\<rparr>"
    by (cases df) (simp add: price_file_pair_def read_eval)
  from loaders_coerce_keep_file_order [where fs = toy_fs and path = "''flags.csv''"
      and f = price_file_flags and p = toy_parser] h1'
  obtain ff where "load_price_data toy_parser toy_fs ''flags.csv'' = Inr ff"
    and "index ff = DatetimeIndex (stamps price_file_flags) None"
    and "cols ff = map (\<lambda>(name, raw). (name, to_numeric_cells toy_parser (read_column toy_parser raw)))
                     (fcols price_file_flags)"
    by blast
  then have c1': "load_price_data toy_parser toy_fs ''flags.csv'' =
       Inr \<lparr>index = DatetimeIndex [0, 1] None,
            cols = [(''day_ahead'', [Num (Fin 30), Num (Fin 31.5)]),
                    (''peak'', [Bool True, Bool False]),
                    (''holiday'', [Num (Fin 1), Num NaN])]\<rparr>"
    by (cases ff) (simp add: price_file_flags_def read_eval)
  from loaders_coerce_keep_file_order [where p = toy_parser
      and raw = "[''31.5'', [], ''30.0'']"] k0
  have "to_numeric_cells toy_parser (read_column toy_parser [''31.5'', [], ''30.0'']) =
       map (read_number toy_parser) [''31.5'', [], ''30.0'']"
    by blast
  then have d0: "to_numeric_cells toy_parser (read_column toy_parser [''31.5'', [], ''30.0'']) =
       [Num (Fin 31.5), Num NaN, Num (Fin 30)]"
    by (simp add: read_number_def toy_parser_def toy_numbers_def)
  from loaders_coerce_keep_file_order [where p = toy_parser
      and raw = "[''30.0'', ''31.5'', ''oops'']"] k1
  have "to_numeric_cells toy_parser (read_column toy_parser [''30.0'', ''31.5'', ''oops'']) =
          map (\<lambda>s. Num (if na_text toy_parser s then NaN
                         else case to_numeric_text toy_parser s of
                                Some x \<Rightarrow> x | None \<Rightarrow> NaN))
            [''30.0'', ''31.5'', ''oops'']"
    by blast
  then have d1: "to_numeric_cells toy_parser (read_column toy_parser [''30.0'', ''31.5'', ''oops'']) =
       [Num (Fin 30), Num (Fin 31.5), Num NaN]"
    by (simp add: toy_parser_def toy_numbers_def)
  from loaders_coerce_keep_file_order [where p = toy_parser and raw = "[''True'', ''False'']"] k2
  have "to_numeric_cells toy_parser (read_column toy_parser [''True'', ''False'']) =
       map (read_bool toy_parser) [''True'', ''False'']"
    by blast
  then have d2: "to_numeric_cells toy_parser (read_column toy_parser [''True'', ''False'']) =
       [Bool True, Bool False]"
    by (simp add: read_bool_def toy_parser_def)
  from loaders_coerce_keep_file_order [where p = toy_parser and raw = "[''True'', []]"] k3
  have "to_numeric_cells toy_parser (read_column toy_parser [''True'', []]) =
          map (\<lambda>s. Num (if na_text toy_parser s then NaN
                         else case bool_text toy_parser s of
                                Some b \<Rightarrow> bool_to_float b | None \<Rightarrow> NaN))
            [''True'', []]"
    by blast
  then have d3: "to_numeric_cells toy_parser (read_column toy_parser [''True'', []]) =
       [Num (Fin 1), Num NaN]"
    by (simp add: toy_parser_def bool_to_float_def)
  from loaders_coerce_keep_file_order [where fs = toy_fs and path = "''weather.csv''"
      and f = weather_file and p = toy_parser] h2
  obtain wf where "load_weather_data toy_parser toy_fs ''weather.csv'' = Inr wf"
    and "index wf = DatetimeIndex (stamps weather_file) None"
    and "cols wf = map (\<lambda>(name, raw).
                       (name, if name = ''temperature''
                              then to_numeric_cells toy_parser (read_column toy_parser raw)
                              else read_column toy_parser raw))
                     (fcols weather_file)"
    by blast
  then have c2: "load_weather_data toy_parser toy_fs ''weather.csv'' =
       Inr \<lparr>index = DatetimeIndex [0, 1] None,
            cols = [(''temperature'', [Num (Fin 25.5), Num NaN]),
                    (''humidity'', [Str ''0.4'', Str ''high''])]\<rparr>"
    by (cases wf) (simp add: weather_file_def read_eval)
  from loaders_coerce_keep_file_order [where fs = toy_fs and path = "''prices.csv''"
      and f = price_file_unsorted and p = toy_parser] h3
  have c3: "load_weather_data toy_parser toy_fs ''prices.csv'' = Inl KeyError"
    by blast
  from loaders_coerce_keep_file_order [where fs = toy_fs and path = "''missing.csv''"
      and p = toy_parser] h4
  have c4: "load_price_data toy_parser toy_fs ''missing.csv'' = Inl FileNotFoundError"
    by blast
  from h1 h1' h2 h3 h4 k0 k1 k2 k3 c1 c1' d0 d1 d2 d3 c2 c3 c4 show ?thesis
    by (intro conjI) simp_all
qed

subsection \<open>The sentiment loader\<close>

text \<open>
  The number of value columns is never checked: the loader casts the first value column
  of the file, whatever the other columns hold.
\<close>

lemma load_sentiment_scores_first_column:
  assumes "fs path = Some f" and "fcols f = (name, raw) # rest"
  shows "load_sentiment_scores p fs path =
         astype_float p \<lparr>sindex = DatetimeIndex (stamps f) None, svalues = read_column p raw\<rparr>"
  using assms by (simp add: load_sentiment_scores_def read_csv_def iloc_col0_def)

text \<open>The cast keeps numbers and turns booleans into 1.0 and 0.0.\<close>

lemma floats_of_numbers_and_booleans:
  "list_all (\<lambda>c. is_num c \<or> is_bool c) vs \<Longrightarrow> \<exists>xs. floats_of p vs = Some xs"
proof (induction vs)
  case Nil
  then show ?case by simp
next
  case (Cons c cs)
  then obtain xs where "floats_of p cs = Some xs" by auto
  moreover from Cons.prems obtain x where "cell_to_float p c = Some x"
    by (cases c) auto
  ultimately show ?case by simp
qed

lemma astype_float_booleans:
  "astype_float p \<lparr>sindex = idx, svalues = map Bool bs\<rparr> =
     Inr \<lparr>sindex = idx, svalues = map (\<lambda>b. Num (bool_to_float b)) bs\<rparr>"
proof -
  have "floats_of p (map Bool bs) = Some (map bool_to_float bs)"
    by (induction bs) simp_all
  then show ?thesis by (simp add: astype_float_def comp_def)
qed

text \<open>
  C10. On a file of two value columns whose first holds numbers only,
  \<open>load_sentiment_scores\<close> returns the first column as floats and drops the other. But on
  a file whose only value column holds a cell that is no number it raises ValueError: it
  does not return the column coerced to float. \<open>load_price_data\<close>, reading the same file,
  returns that column with NaN at the malformed cell.
\<close>

theorem sentiment_loader_raises_on_text:
  "toy_fs ''sentiment.csv'' = Some sentiment_file
   \<and> fcols sentiment_file =
       [(''sentiment'', [''0.4'', ''0.4'']), (''source'', [''wire'', ''blog''])]
   \<and> load_sentiment_scores toy_parser toy_fs ''sentiment.csv'' =
       Inr \<lparr>sindex = DatetimeIndex [0, 2] None, svalues = [Num (Fin 0.4), Num (Fin 0.4)]\<rparr>
   \<and> toy_fs ''sentiment_bad.csv'' = Some sentiment_file_bad
   \<and> fcols sentiment_file_bad = [(''sentiment'', [''0.4'', ''bad''])]
   \<and> load_sentiment_scores toy_parser toy_fs ''sentiment_bad.csv'' = Inl ValueError
   \<and> load_price_data toy_parser toy_fs ''sentiment_bad.csv'' =
       Inr \<lparr>index = DatetimeIndex [0, 1] None,
            cols = [(''sentiment'', [Num (Fin 0.4), Num NaN])]\<rparr>"
  by code_simp

subsection \<open>The orchestrator\<close>

lemma iloc_col0_Inr: "iloc_col0 df = Inr s \<Longrightarrow> 1 \<le> length (cols df)"
  by (cases "cols df") (auto simp add: iloc_col0_def)

lemma run_pipeline_Inr:
  assumes "run_pipeline ms p fs price_path weather_path sentiment_path h = Inr res"
  shows "\<exists>price_df. load_price_data p fs price_path = Inr price_df
         \<and> 1 \<le> length (cols price_df)
         \<and> (vecm_forecast res \<noteq> None) = (1 < length (cols price_df))
         \<and> (1 < length (cols price_df) \<longrightarrow>
              (\<exists>r. fit_vecm_garch (vecm_garch_VECM ms) price_df 0 1 None h = Inr r
                 \<and> vecm_forecast res = Some (forecast r)))
         \<and> (length (cols price_df) = 1 \<longrightarrow> vecm_forecast res = None)
         \<and> arimax_forecast res \<noteq> None \<and> arimax_garch_mean res \<noteq> None
         \<and> arimax_garch_vol res \<noteq> None"
proof -
  from assms obtain price_df where
    load: "load_price_data p fs price_path = Inr price_df"
    and rest: "\<exists>exog price0 arimax_fc price0' result_garch vecm_res.
       iloc_col0 price_df = Inr price0
       \<and> (if 1 < length (cols price_df)
               then and_then (fit_vecm_garch (vecm_garch_VECM ms) price_df 0 1 None h)
                      (\<lambda>r. Inr (Some r))
               else Inr None) = Inr vecm_res
       \<and> res = \<lparr>arimax_forecast = Some arimax_fc,
            arimax_garch_mean = Some (forecast_mean (result_garch :: ('a, 'b) ArimaxGarchResult)),
            arimax_garch_vol = Some (forecast_vol result_garch),
            vecm_forecast = (case vecm_res of None \<Rightarrow> None | Some r \<Rightarrow> Some (forecast r))\<rparr>"
    unfolding run_pipeline_def and_then_Inr_iff
    apply (elim exE conjE)
    apply (simp only: sum.inject)
    apply blast
    done
  from rest obtain price0 arimax_fc and result_garch :: "('a, 'b) ArimaxGarchResult" and vecm_res where
    col0: "iloc_col0 price_df = Inr price0"
    and vecm: "(if 1 < length (cols price_df)
               then and_then (fit_vecm_garch (vecm_garch_VECM ms) price_df 0 1 None h)
                      (\<lambda>r. Inr (Some r))
               else Inr None) = Inr vecm_res"
    and res: "res = \<lparr>arimax_forecast = Some arimax_fc,
            arimax_garch_mean = Some (forecast_mean result_garch),
            arimax_garch_vol = Some (forecast_vol result_garch),
            vecm_forecast = (case vecm_res of None \<Rightarrow> None | Some r \<Rightarrow> Some (forecast r))\<rparr>"
    by blast
  from col0 have one: "1 \<le> length (cols price_df)" by (rule iloc_col0_Inr)
  show ?thesis
  proof (cases "1 < length (cols price_df)")
    case True
    with vecm obtain r where "fit_vecm_garch (vecm_garch_VECM ms) price_df 0 1 None h = Inr r"
      and "vecm_res = Some r"
      by (auto simp add: and_then_Inr_iff)
    with load one res True show ?thesis by auto
  next
    case False
    with vecm have "vecm_res = None" by simp
    with load one res False show ?thesis by auto
  qed
qed

lemma run_pipeline_via_degraded:
  assumes "load_price_data p fs price_path = Inr price_table"
  shows "run_pipeline (ms\<lparr>vecm_garch_VECM := V\<rparr>) p fs price_path weather_path sentiment_path h =
          (case run_pipeline (ms\<lparr>vecm_garch_VECM := None\<rparr>) p fs price_path weather_path
                  sentiment_path h of
             Inl e \<Rightarrow> Inl e
           | Inr r0 \<Rightarrow>
               if 1 < length (cols price_table)
               then (case fit_vecm_garch V price_table 0 1 None h of
                       Inl e \<Rightarrow> Inl e
                     | Inr v \<Rightarrow> Inr (r0\<lparr>vecm_forecast := Some (forecast v)\<rparr>))
               else Inr r0)"
proof -
  let ?K = "\<lambda>r0. if 1 < length (cols price_table)
               then (case fit_vecm_garch V price_table 0 1 None h of
                       Inl e \<Rightarrow> Inl e
                     | Inr v \<Rightarrow> Inr (r0\<lparr>vecm_forecast := Some (forecast v)\<rparr>))
               else Inr r0"
  have "run_pipeline (ms\<lparr>vecm_garch_VECM := V\<rparr>) p fs price_path weather_path sentiment_path h =
        and_then (run_pipeline (ms\<lparr>vecm_garch_VECM := None\<rparr>) p fs price_path weather_path
                  sentiment_path h) ?K"
    unfolding run_pipeline_def and_then_assoc assms and_then_Inr
    apply (intro and_then_cong_Inr)
    apply (simp add: fit_vecm_garch_def and_then_def split: sum.split)
    done
  then show ?thesis unfolding and_then_def .
qed

text \<open>
  C7. Whenever \<open>run_pipeline\<close> returns, the price table has at least one column, and the
  multivariate forecast of the result is present exactly when the table has more than
  one: then it is the forecast \<open>fit_vecm_garch\<close> returns on the full price table (default
  orders, the pipeline's horizon); with exactly one column it is \<open>None\<close>, while the three
  other forecasts are present. With at most one column the VECM library is never used:
  replacing it changes nothing. With more than one column the adapter is used: when it
  raises, the pipeline raises. Whatever the VECM library, the run is the run without that
  library, in which, when the price table has more than one column, the adapter's result
  on the full price table stands for the degraded one: its forecast is the multivariate
  forecast of the bundle, its exception the pipeline's.
\<close>

theorem pipeline_vecm_only_for_several_columns:
  "(run_pipeline ms p fs price_path weather_path sentiment_path h = Inr res \<longrightarrow>
      (\<exists>price_df. load_price_data p fs price_path = Inr price_df
         \<and> 1 \<le> length (cols price_df)
         \<and> (vecm_forecast res \<noteq> None) = (1 < length (cols price_df))
         \<and> (1 < length (cols price_df) \<longrightarrow>
              (\<exists>r. fit_vecm_garch (vecm_garch_VECM ms) price_df 0 1 None h = Inr r
                 \<and> vecm_forecast res = Some (forecast r)))
         \<and> (length (cols price_df) = 1 \<longrightarrow> vecm_forecast res = None)
         \<and> arimax_forecast res \<noteq> None \<and> arimax_garch_mean res \<noteq> None
         \<and> arimax_garch_vol res \<noteq> None))
   \<and> (load_price_data p fs price_path = Inr price_table \<and> length (cols price_table) \<le> 1 \<longrightarrow>
        run_pipeline (ms\<lparr>vecm_garch_VECM := V\<rparr>) p fs price_path weather_path sentiment_path h =
        run_pipeline ms p fs price_path weather_path sentiment_path h)
   \<and> (load_price_data p fs price_path = Inr price_table \<and> 1 < length (cols price_table)
        \<and> fit_vecm_garch (vecm_garch_VECM ms) price_table 0 1 None h = Inl e \<longrightarrow>
        (\<exists>e'. run_pipeline ms p fs price_path weather_path sentiment_path h = Inl e'))
   \<and> (load_price_data p fs price_path = Inr price_table \<longrightarrow>
        run_pipeline (ms\<lparr>vecm_garch_VECM := V\<rparr>) p fs price_path weather_path sentiment_path h =
          (case run_pipeline (ms\<lparr>vecm_garch_VECM := None\<rparr>) p fs price_path weather_path
                  sentiment_path h of
             Inl e \<Rightarrow> Inl e
           | Inr r0 \<Rightarrow>
               if 1 < length (cols price_table)
               then (case fit_vecm_garch V price_table 0 1 None h of
                       Inl e \<Rightarrow> Inl e
                     | Inr v \<Rightarrow> Inr (r0\<lparr>vecm_forecast := Some (forecast v)\<rparr>))
               else Inr r0))"
proof -
  have ret: "run_pipeline ms p fs price_path weather_path sentiment_path h = Inr res \<longrightarrow>
      (\<exists>price_df. load_price_data p fs price_path = Inr price_df
         \<and> 1 \<le> length (cols price_df)
         \<and> (vecm_forecast res \<noteq> None) = (1 < length (cols price_df))
         \<and> (1 < length (cols price_df) \<longrightarrow>
              (\<exists>r. fit_vecm_garch (vecm_garch_VECM ms) price_df 0 1 None h = Inr r
                 \<and> vecm_forecast res = Some (forecast r)))
         \<and> (length (cols price_df) = 1 \<longrightarrow> vecm_forecast res = None)
         \<and> arimax_forecast res \<noteq> None \<and> arimax_garch_mean res \<noteq> None
         \<and> arimax_garch_vol res \<noteq> None)"
    by (rule impI) (rule run_pipeline_Inr)
  have skip: "load_price_data p fs price_path = Inr price_table \<and> length (cols price_table) \<le> 1 \<longrightarrow>
        run_pipeline (ms\<lparr>vecm_garch_VECM := V\<rparr>) p fs price_path weather_path sentiment_path h =
        run_pipeline ms p fs price_path weather_path sentiment_path h"
  proof
    assume a: "load_price_data p fs price_path = Inr price_table \<and> length (cols price_table) \<le> 1"
    then have "\<not> 1 < length (cols price_table)" by simp
    with a show "run_pipeline (ms\<lparr>vecm_garch_VECM := V\<rparr>) p fs price_path weather_path sentiment_path h =
        run_pipeline ms p fs price_path weather_path sentiment_path h"
      by (simp add: run_pipeline_def)
  qed
  have fail: "load_price_data p fs price_path = Inr price_table \<and> 1 < length (cols price_table)
        \<and> fit_vecm_garch (vecm_garch_VECM ms) price_table 0 1 None h = Inl e \<longrightarrow>
        (\<exists>e'. run_pipeline ms p fs price_path weather_path sentiment_path h = Inl e')"
  proof
    assume a: "load_price_data p fs price_path = Inr price_table \<and> 1 < length (cols price_table)
        \<and> fit_vecm_garch (vecm_garch_VECM ms) price_table 0 1 None h = Inl e"
    show "\<exists>e'. run_pipeline ms p fs price_path weather_path sentiment_path h = Inl e'"
    proof (cases "run_pipeline ms p fs price_path weather_path sentiment_path h")
      case (Inl e')
      then show ?thesis by blast
    next
      case (Inr res')
      from run_pipeline_Inr [OF Inr] obtain price_df where
        "load_price_data p fs price_path = Inr price_df"
        and "1 < length (cols price_df) \<longrightarrow>
              (\<exists>r. fit_vecm_garch (vecm_garch_VECM ms) price_df 0 1 None h = Inr r
                 \<and> vecm_forecast res' = Some (forecast r))"
        by blast
      with a show ?thesis by simp
    qed
  qed
  have via: "load_price_data p fs price_path = Inr price_table \<longrightarrow>
        run_pipeline (ms\<lparr>vecm_garch_VECM := V\<rparr>) p fs price_path weather_path sentiment_path h =
          (case run_pipeline (ms\<lparr>vecm_garch_VECM := None\<rparr>) p fs price_path weather_path
                  sentiment_path h of
             Inl e \<Rightarrow> Inl e
           | Inr r0 \<Rightarrow>
               if 1 < length (cols price_table)
               then (case fit_vecm_garch V price_table 0 1 None h of
                       Inl e \<Rightarrow> Inl e
                     | Inr v \<Rightarrow> Inr (r0\<lparr>vecm_forecast := Some (forecast v)\<rparr>))
               else Inr r0)"
    by (rule impI) (rule run_pipeline_via_degraded)
  from ret skip fail via show ?thesis by (intro conjI)
qed

text \<open>The definitions a concrete run of the pipeline unfolds.\<close>

lemmas pipeline_eval =
  run_pipeline_def load_price_data_def load_weather_data_def load_sentiment_scores_def
  read_csv_def read_eval columns_def getitem_def setitem_def to_numeric_coerce_def
  astype_float_def iloc_col0_def compute_degree_days_def hdd_def cdd_def
  default_base_temperature_def reindex_ffill_def reindex_ffill_series_def reindex_indexer_def
  take_rows_def
  pad_indexer_def pad_one_def searchsorted_monotonic_def searchsorted_left_def
  searchsorted_right_def take_fill_def add_sentiment_def fit_arimax_def fit_arimax_garch_def
  fit_vecm_garch_def pd_DataFrame_const_def pd_Series_def py_repeat_def
  toy_fs_def weather_file_def price_file_unsorted_def price_file_pair_def
  sentiment_file_def no_modules_def failing_vecm_def numeral_3_eq_3

theorem pipeline_vecm_only_for_several_columns_witness:
  "run_pipeline no_modules toy_parser toy_fs ''prices.csv'' ''weather.csv'' None 3 =
     Inr \<lparr>arimax_forecast = Some \<lparr>sindex = RangeIndex 0 3, svalues = [Num NaN, Num NaN, Num NaN]\<rparr>,
          arimax_garch_mean = Some \<lparr>sindex = RangeIndex 0 3, svalues = [Num NaN, Num NaN, Num NaN]\<rparr>,
          arimax_garch_vol = Some \<lparr>sindex = RangeIndex 0 3, svalues = [Num NaN, Num NaN, Num NaN]\<rparr>,
          vecm_forecast = None\<rparr>
   \<and> run_pipeline no_modules toy_parser toy_fs ''prices2.csv'' ''weather.csv''
        (Some ''sentiment.csv'') 3 =
     Inr \<lparr>arimax_forecast = Some \<lparr>sindex = RangeIndex 0 3, svalues = [Num NaN, Num NaN, Num NaN]\<rparr>,
          arimax_garch_mean = Some \<lparr>sindex = RangeIndex 0 3, svalues = [Num NaN, Num NaN, Num NaN]\<rparr>,
          arimax_garch_vol = Some \<lparr>sindex = RangeIndex 0 3, svalues = [Num NaN, Num NaN, Num NaN]\<rparr>,
          vecm_forecast =
            Some \<lparr>index = RangeIndex 0 3,
                  cols = [(''day_ahead'', [Num NaN, Num NaN, Num NaN]),
                          (''real_time'', [Num NaN, Num NaN, Num NaN])]\<rparr>\<rparr>
   \<and> (\<exists>one. load_price_data toy_parser toy_fs ''prices.csv'' = Inr one \<and> length (cols one) = 1)
   \<and> (\<exists>two. load_price_data toy_parser toy_fs ''prices2.csv'' = Inr two \<and> length (cols two) = 2
         \<and> fit_vecm_garch (Some failing_vecm) two 0 1 None 3 = Inl (BackendError ''no convergence''))
   \<and> run_pipeline (no_modules\<lparr>vecm_garch_VECM := Some failing_vecm\<rparr>) toy_parser toy_fs
        ''prices.csv'' ''weather.csv'' None 3 =
      run_pipeline no_modules toy_parser toy_fs ''prices.csv'' ''weather.csv'' None 3
   \<and> (\<exists>e'. run_pipeline (no_modules\<lparr>vecm_garch_VECM := Some failing_vecm\<rparr>) toy_parser toy_fs
        ''prices2.csv'' ''weather.csv'' (Some ''sentiment.csv'') 3 = Inl e')
   \<and> fit_vecm_garch (Some toy_vecm)
        \<lparr>index = DatetimeIndex [0, 1, 2] None,
         cols = [(''day_ahead'', [Num (Fin 30), Num (Fin 31.5), Num NaN]),
                 (''real_time'', [Num (Fin 31.5), Num NaN, Num (Fin 30)])]\<rparr> 0 1 None 3 =
     Inr \<lparr>vecm_model = Some (),
          forecast = \<lparr>index = DatetimeIndex [86402, 172802, 259202] (Some 86400),
                      cols = [(''day_ahead'', [Num (Fin 0), Num (Fin 0), Num (Fin 0)]),
                              (''real_time'', [Num (Fin 0), Num (Fin 0), Num (Fin 0)])]\<rparr>\<rparr>
   \<and> run_pipeline (no_modules\<lparr>vecm_garch_VECM := Some toy_vecm\<rparr>) toy_parser toy_fs
        ''prices2.csv'' ''weather.csv'' (Some ''sentiment.csv'') 3 =
     Inr \<lparr>arimax_forecast = Some \<lparr>sindex = RangeIndex 0 3, svalues = [Num NaN, Num NaN, Num NaN]\<rparr>,
          arimax_garch_mean = Some \<lparr>sindex = RangeIndex 0 3, svalues = [Num NaN, Num NaN, Num NaN]\<rparr>,
          arimax_garch_vol = Some \<lparr>sindex = RangeIndex 0 3, svalues = [Num NaN, Num NaN, Num NaN]\<rparr>,
          vecm_forecast =
            Some \<lparr>index = DatetimeIndex [86402, 172802, 259202] (Some 86400),
                  cols = [(''day_ahead'', [Num (Fin 0), Num (Fin 0), Num (Fin 0)]),
                          (''real_time'', [Num (Fin 0), Num (Fin 0), Num (Fin 0)])]\<rparr>\<rparr>"
proof -
  let ?one = "\<lparr>index = DatetimeIndex [2, 1] None,
           cols = [(''day_ahead'', [Num (Fin 30), Num (Fin 31.5)])]\<rparr>"
  let ?two = "\<lparr>index = DatetimeIndex [0, 1, 2] None,
            cols = [(''day_ahead'', [Num (Fin 30), Num (Fin 31.5), Num NaN]),
                    (''real_time'', [Num (Fin 31.5), Num NaN, Num (Fin 30)])]\<rparr>"
  let ?res1 = "\<lparr>arimax_forecast = Some \<lparr>sindex = RangeIndex 0 3, svalues = [Num NaN, Num NaN, Num NaN]\<rparr>,
          arimax_garch_mean = Some \<lparr>sindex = RangeIndex 0 3, svalues = [Num NaN, Num NaN, Num NaN]\<rparr>,
          arimax_garch_vol = Some \<lparr>sindex = RangeIndex 0 3, svalues = [Num NaN, Num NaN, Num NaN]\<rparr>,
          vecm_forecast = None\<rparr>"
  have run1: "run_pipeline no_modules toy_parser toy_fs ''prices.csv'' ''weather.csv'' None 3 =
     Inr ?res1"
    by (simp add: pipeline_eval)
  have run2: "run_pipeline no_modules toy_parser toy_fs ''prices2.csv'' ''weather.csv''
        (Some ''sentiment.csv'') 3 =
     Inr \<lparr>arimax_forecast = Some \<lparr>sindex = RangeIndex 0 3, svalues = [Num NaN, Num NaN, Num NaN]\<rparr>,
          arimax_garch_mean = Some \<lparr>sindex = RangeIndex 0 3, svalues = [Num NaN, Num NaN, Num NaN]\<rparr>,
          arimax_garch_vol = Some \<lparr>sindex = RangeIndex 0 3, svalues = [Num NaN, Num NaN, Num NaN]\<rparr>,
          vecm_forecast =
            Some \<lparr>index = RangeIndex 0 3,
                  cols = [(''day_ahead'', [Num NaN, Num NaN, Num NaN]),
                          (''real_time'', [Num NaN, Num NaN, Num NaN])]\<rparr>\<rparr>"
    by (simp add: pipeline_eval)
  have one: "load_price_data toy_parser toy_fs ''prices.csv'' = Inr ?one"
    by (simp add: pipeline_eval)
  have two: "load_price_data toy_parser toy_fs ''prices2.csv'' = Inr ?two"
    by (simp add: pipeline_eval)
  have bad: "fit_vecm_garch (Some failing_vecm) ?two 0 1 None 3 = Inl (BackendError ''no convergence'')"
    by (simp add: fit_vecm_garch_def failing_vecm_def)
  have sizes: "length (cols ?one) = 1 \<and> length (cols ?two) = 2"
    by simp
  from pipeline_vecm_only_for_several_columns [where ms = no_modules and p = toy_parser
      and fs = toy_fs and price_path = "''prices.csv''" and weather_path = "''weather.csv''"
      and sentiment_path = None and h = 3 and V = "Some failing_vecm"
      and price_table = ?one, THEN conjunct2, THEN conjunct1] one sizes
  have same:
    "run_pipeline (no_modules\<lparr>vecm_garch_VECM := Some failing_vecm\<rparr>) toy_parser toy_fs
        ''prices.csv'' ''weather.csv'' None 3 =
      run_pipeline no_modules toy_parser toy_fs ''prices.csv'' ''weather.csv'' None 3"
    by simp
  have bad': "fit_vecm_garch (vecm_garch_VECM (no_modules\<lparr>vecm_garch_VECM := Some failing_vecm\<rparr>))
      ?two 0 1 None 3 = Inl (BackendError ''no convergence'')"
    using bad by simp
  from pipeline_vecm_only_for_several_columns [
      where ms = "no_modules\<lparr>vecm_garch_VECM := Some failing_vecm\<rparr>" and p = toy_parser
      and fs = toy_fs and price_path = "''prices2.csv''" and weather_path = "''weather.csv''"
      and sentiment_path = "Some ''sentiment.csv''" and h = 3
      and e = "BackendError ''no convergence''"
      and price_table = ?two, THEN conjunct2, THEN conjunct2, THEN conjunct1] two sizes bad'
  have raised:
    "\<exists>e'. run_pipeline (no_modules\<lparr>vecm_garch_VECM := Some failing_vecm\<rparr>) toy_parser toy_fs
        ''prices2.csv'' ''weather.csv'' (Some ''sentiment.csv'') 3 = Inl e'"
    by simp
  from pipeline_vecm_only_for_several_columns [where ms = no_modules and p = toy_parser
      and fs = toy_fs and price_path = "''prices.csv''" and weather_path = "''weather.csv''"
      and sentiment_path = None and h = 3 and res = ?res1, THEN conjunct1] run1
  obtain loaded where "load_price_data toy_parser toy_fs ''prices.csv'' = Inr loaded"
    and "1 \<le> length (cols loaded)"
    and "(vecm_forecast ?res1 \<noteq> None) = (1 < length (cols loaded))"
    by blast
  then have e1: "\<exists>one. load_price_data toy_parser toy_fs ''prices.csv'' = Inr one \<and> length (cols one) = 1"
    by auto
  have e2: "\<exists>two. load_price_data toy_parser toy_fs ''prices2.csv'' = Inr two \<and> length (cols two) = 2
         \<and> fit_vecm_garch (Some failing_vecm) two 0 1 None 3 = Inl (BackendError ''no convergence'')"
    using two sizes bad by blast
  have good: "fit_vecm_garch (Some toy_vecm) ?two 0 1 None 3 =
     Inr \<lparr>vecm_model = Some (),
          forecast = \<lparr>index = DatetimeIndex [86402, 172802, 259202] (Some 86400),
                      cols = [(''day_ahead'', [Num (Fin 0), Num (Fin 0), Num (Fin 0)]),
                              (''real_time'', [Num (Fin 0), Num (Fin 0), Num (Fin 0)])]\<rparr>\<rparr>"
    by code_simp
  have none: "no_modules\<lparr>vecm_garch_VECM := None\<rparr> = no_modules"
    by (simp add: no_modules_def)
  from pipeline_vecm_only_for_several_columns [where ms = no_modules and p = toy_parser
      and fs = toy_fs and price_path = "''prices2.csv''" and weather_path = "''weather.csv''"
      and sentiment_path = "Some ''sentiment.csv''" and h = 3 and V = "Some toy_vecm"
      and price_table = ?two, THEN conjunct2, THEN conjunct2, THEN conjunct2, rule_format, OF two]
  have via: "run_pipeline (no_modules\<lparr>vecm_garch_VECM := Some toy_vecm\<rparr>) toy_parser toy_fs
        ''prices2.csv'' ''weather.csv'' (Some ''sentiment.csv'') 3 =
     Inr \<lparr>arimax_forecast = Some \<lparr>sindex = RangeIndex 0 3, svalues = [Num NaN, Num NaN, Num NaN]\<rparr>,
          arimax_garch_mean = Some \<lparr>sindex = RangeIndex 0 3, svalues = [Num NaN, Num NaN, Num NaN]\<rparr>,
          arimax_garch_vol = Some \<lparr>sindex = RangeIndex 0 3, svalues = [Num NaN, Num NaN, Num NaN]\<rparr>,
          vecm_forecast =
            Some \<lparr>index = DatetimeIndex [86402, 172802, 259202] (Some 86400),
                  cols = [(''day_ahead'', [Num (Fin 0), Num (Fin 0), Num (Fin 0)]),
                          (''real_time'', [Num (Fin 0), Num (Fin 0), Num (Fin 0)])]\<rparr>\<rparr>"
    by (simp only: none run2 good) simp
  from run1 run2 e1 e2 same raised good via show ?thesis by (intro conjI)
qed

end
